theory Spec2Isabelle
  imports Complex_Main "HOL-Library.Sublist"
begin

section \<open>Python values the program works on\<close>

subsection \<open>Strings\<close>

text \<open>
  A Python \<open>str\<close> is modelled as a \<open>string\<close> whose characters are code points below 256.
  \<open>isspace\<close> lists the code points below 256 that \<open>str.isspace\<close> accepts, \<open>strip\<close> is
  \<open>str.strip()\<close>, \<open>lower\<close> is \<open>str.lower()\<close> on the ASCII letters (no other character
  lowers to a character of \<open>.wav\<close>, the only string the program compares a lowered string with),
  and \<open>str_int\<close> is \<open>str(n)\<close> for an integer.
\<close>

definition isspace :: "char \<Rightarrow> bool" where
  "isspace c = (of_char c \<in> set [9, 10, 11, 12, 13, 28, 29, 30, 31, 32, 133, 160 :: nat])"

definition strip :: "string \<Rightarrow> string" where
  "strip s = rev (dropWhile isspace (rev (dropWhile isspace s)))"

definition lower_char :: "char \<Rightarrow> char" where
  "lower_char c =
     (case map_of (zip ''ABCDEFGHIJKLMNOPQRSTUVWXYZ'' ''abcdefghijklmnopqrstuvwxyz'') c of
        Some l \<Rightarrow> l
      | None \<Rightarrow> c)"

definition lower :: "string \<Rightarrow> string" where
  "lower s = map lower_char s"

definition digit :: "nat \<Rightarrow> char" where
  "digit n = ''0123456789'' ! n"

fun str_nat :: "nat \<Rightarrow> string" where
  "str_nat n = (if n < 10 then [digit n] else str_nat (n div 10) @ [digit (n mod 10)])"

declare str_nat.simps [simp del]

definition str_int :: "int \<Rightarrow> string" where
  "str_int i = (if i < 0 then CHR ''-'' # str_nat (nat (- i)) else str_nat (nat i))"

fun rfind :: "char \<Rightarrow> string \<Rightarrow> nat option" where
  "rfind c [] = None"
| "rfind c (x # xs) =
     (case rfind c xs of Some i \<Rightarrow> Some (Suc i) | None \<Rightarrow> if x = c then Some 0 else None)"

fun split_on :: "char \<Rightarrow> string \<Rightarrow> string list" where
  "split_on c [] = [[]]"
| "split_on c (x # xs) =
     (if x = c then [] # split_on c xs
      else (case split_on c xs of y # ys \<Rightarrow> (x # y) # ys | [] \<Rightarrow> [[x]]))"

fun join_with :: "string \<Rightarrow> string list \<Rightarrow> string" where
  "join_with sep [] = []"
| "join_with sep [x] = x"
| "join_with sep (x # y # ys) = x @ sep @ join_with sep (y # ys)"

fun contains_str :: "string \<Rightarrow> string \<Rightarrow> bool" where
  "contains_str k [] = (k = [])"
| "contains_str k (c # cs) = (prefix k (c # cs) \<or> contains_str k cs)"

subsection \<open>Paths\<close>

text \<open>
  A \<open>pathlib\<close> path on a POSIX system: the root (\<open>''''\<close>, \<open>''/''\<close> or \<open>''//''\<close>) and the
  components. \<open>Path\<close> is the constructor applied to a string, \<open>str_path\<close> is \<open>str(p)\<close>,
  \<open>name\<close>, \<open>suffix\<close> and \<open>stem\<close> are the properties of these names, and \<open>joinpath p s\<close> is
  \<open>p / s\<close>.
\<close>

datatype path = PosixPath (anchor: string) (names: "string list")

definition Path :: "string \<Rightarrow> path" where
  "Path s = PosixPath
     (if take 2 s = ''//'' \<and> take 3 s \<noteq> ''///'' then ''//''
      else if take 1 s = ''/'' then ''/'' else [])
     (filter (\<lambda>x. x \<noteq> [] \<and> x \<noteq> ''.'') (split_on CHR ''/'' s))"

definition str_path :: "path \<Rightarrow> string" where
  "str_path p =
     (if anchor p = [] \<and> names p = [] then ''.'' else anchor p @ join_with ''/'' (names p))"

definition name :: "path \<Rightarrow> string" where
  "name p = (if names p = [] then [] else last (names p))"

definition suffix :: "path \<Rightarrow> string" where
  "suffix p =
     (let nm = name p in
      case rfind CHR ''.'' nm of
        Some i \<Rightarrow> if 0 < i \<and> i < length nm - 1 then drop i nm else []
      | None \<Rightarrow> [])"

definition stem :: "path \<Rightarrow> string" where
  "stem p =
     (let nm = name p in
      case rfind CHR ''.'' nm of
        Some i \<Rightarrow> if 0 < i \<and> i < length nm - 1 then take i nm else nm
      | None \<Rightarrow> nm)"

definition joinpath :: "path \<Rightarrow> string \<Rightarrow> path" where
  "joinpath p s =
     (let q = Path s in
      if anchor q \<noteq> [] then q else PosixPath (anchor p) (names p @ names q))"

subsection \<open>Exceptions\<close>

text \<open>
  The exceptions the program raises itself: \<open>FFprobeError\<close> (in \<open>probe.py\<close>), \<open>FFmpegError\<close>
  (in \<open>convert.py\<close>) and the \<open>ValueError\<close> of \<open>_pcm_codec\<close>; those the interpreter raises on
  the program's own expressions: \<open>AttributeError\<close> (a \<open>get\<close> on a value that is no dict) and
  \<open>TypeError\<close> (a membership test or an iteration on a value that allows none); and
  \<open>External\<close>, an exception raised inside a call of the standard library
  (\<open>subprocess.run\<close>, \<open>Path.mkdir\<close>, \<open>json.loads\<close>), with its description. All of them are
  subclasses of \<open>Exception\<close>.
\<close>

datatype error =
    FFprobeError string
  | FFmpegError string
  | ValueError string
  | AttributeError
  | TypeError
  | External string

subsection \<open>Decoded JSON\<close>

text \<open>
  What \<open>json.loads\<close> returns: \<open>None\<close>, a bool, an int, a float, a str, a list or a dict.
  \<open>JObj\<close> carries the items of the dict. \<open>'f\<close> is the type of Python floats.
\<close>

datatype 'f json =
    JNull
  | JBool bool
  | JInt int
  | JFloat 'f
  | JStr string
  | JArr "'f json list"
  | JObj "(string \<times> 'f json) list"

subsection \<open>The world outside the program\<close>

record ProgressEvent =
  ndone :: int
  total :: int
  message :: string

record proc =
  returncode :: int
  stdout :: string
  stderr :: string

text \<open>
  The calls the program makes to the outside, in the order it makes them:
  \<open>Path.mkdir(parents=True, exist_ok=True)\<close> on a directory, \<open>subprocess.run\<close> on an argument
  vector, and the emission of a progress event.
\<close>

datatype effect = Mkdir path | Run "string list" | Emit ProgressEvent

text \<open>
  Everything the program calls and does not define: \<open>subprocess.run\<close> (which raises, or
  returns the completed process), \<open>Path.mkdir\<close> (which raises, or creates the directory),
  \<open>json.loads\<close> (which raises, or returns the decoded value), and the built-ins \<open>float\<close>,
  \<open>int\<close> and \<open>bool\<close> on strings and numbers, where \<open>None\<close> stands for raising an exception.
  What \<open>subprocess.run\<close> and \<open>Path.mkdir\<close> answer may depend on all the calls made before.
\<close>

record 'f env =
  subprocess_run :: "effect list \<Rightarrow> string list \<Rightarrow> string + proc"
  mkdir :: "effect list \<Rightarrow> path \<Rightarrow> string option"
  json_loads :: "string \<Rightarrow> string + 'f json"
  float_of_str :: "string \<Rightarrow> 'f option"
  float_of_int :: "int \<Rightarrow> 'f option"
  float_nonzero :: "'f \<Rightarrow> bool"
  int_of_str :: "string \<Rightarrow> int option"
  int_of_float :: "'f \<Rightarrow> int option"

text \<open>\<open>bool(v)\<close>, as \<open>or\<close> evaluates it.\<close>

fun truthy :: "'f env \<Rightarrow> 'f json \<Rightarrow> bool" where
  "truthy E JNull = False"
| "truthy E (JBool b) = b"
| "truthy E (JInt n) = (n \<noteq> 0)"
| "truthy E (JFloat x) = float_nonzero E x"
| "truthy E (JStr s) = (s \<noteq> [])"
| "truthy E (JArr xs) = (xs \<noteq> [])"
| "truthy E (JObj d) = (d \<noteq> [])"

text \<open>\<open>float(v)\<close> and \<open>int(v)\<close>; \<open>None\<close> when they raise.\<close>

fun py_float :: "'f env \<Rightarrow> 'f json \<Rightarrow> 'f option" where
  "py_float E JNull = None"
| "py_float E (JBool b) = float_of_int E (if b then 1 else 0)"
| "py_float E (JInt n) = float_of_int E n"
| "py_float E (JFloat x) = Some x"
| "py_float E (JStr s) = float_of_str E s"
| "py_float E (JArr xs) = None"
| "py_float E (JObj d) = None"

fun py_int :: "'f env \<Rightarrow> 'f json \<Rightarrow> int option" where
  "py_int E JNull = None"
| "py_int E (JBool b) = Some (if b then 1 else 0)"
| "py_int E (JInt n) = Some n"
| "py_int E (JFloat x) = int_of_float E x"
| "py_int E (JStr s) = int_of_str E s"
| "py_int E (JArr xs) = None"
| "py_int E (JObj d) = None"

text \<open>\<open>d.get(k)\<close> on a dict, \<open>k in v\<close>, \<open>v[k]\<close> (\<open>None\<close> when it raises) and \<open>for s in v\<close>.\<close>

definition dict_get :: "(string \<times> 'f json) list \<Rightarrow> string \<Rightarrow> 'f json" where
  "dict_get d k = (case map_of d k of None \<Rightarrow> JNull | Some v \<Rightarrow> v)"

fun py_contains :: "string \<Rightarrow> 'f json \<Rightarrow> error + bool" where
  "py_contains k (JObj d) = Inr (k \<in> fst ` set d)"
| "py_contains k (JStr s) = Inr (contains_str k s)"
| "py_contains k (JArr xs) = Inr (JStr k \<in> set xs)"
| "py_contains k JNull = Inl TypeError"
| "py_contains k (JBool b) = Inl TypeError"
| "py_contains k (JInt n) = Inl TypeError"
| "py_contains k (JFloat x) = Inl TypeError"

fun py_getitem :: "'f json \<Rightarrow> string \<Rightarrow> 'f json option" where
  "py_getitem (JObj d) k = map_of d k"
| "py_getitem JNull k = None"
| "py_getitem (JBool b) k = None"
| "py_getitem (JInt n) k = None"
| "py_getitem (JFloat x) k = None"
| "py_getitem (JStr s) k = None"
| "py_getitem (JArr xs) k = None"

fun py_iter :: "'f json \<Rightarrow> error + 'f json list" where
  "py_iter (JArr xs) = Inr xs"
| "py_iter (JObj d) = Inr (map (\<lambda>kv. JStr (fst kv)) d)"
| "py_iter (JStr s) = Inr (map (\<lambda>c. JStr [c]) s)"
| "py_iter JNull = Inl TypeError"
| "py_iter (JBool b) = Inl TypeError"
| "py_iter (JInt n) = Inl TypeError"
| "py_iter (JFloat x) = Inl TypeError"

section \<open>\<open>audio/probe.py\<close>\<close>

record 'f AudioInfo =
  path :: path
  duration_s :: 'f
  sample_rate :: "int option"
  channels :: "int option"
  codec :: "'f json"
  bit_rate :: "int option"

text \<open>
  \<open>_run\<close>: run the tool, fail on a non-zero exit code with the stripped standard error (or
  the fallback when that is empty), return the standard output otherwise. An exception of
  \<open>subprocess.run\<close> itself propagates.
\<close>

definition probe_run :: "'f env \<Rightarrow> string list \<Rightarrow> effect list \<Rightarrow> (error + string) \<times> effect list" where
  "probe_run E cmd w =
     (case subprocess_run E w cmd of
        Inl x \<Rightarrow> Inl (External x)
      | Inr p \<Rightarrow>
          if returncode p \<noteq> 0
          then Inl (FFprobeError (if strip (stderr p) \<noteq> [] then strip (stderr p) else ''ffprobe failed''))
          else Inr (stdout p),
      w @ [Run cmd])"

definition probe_cmd :: "path \<Rightarrow> string list" where
  "probe_cmd p =
     [''ffprobe'', ''-v'', ''error'', ''-print_format'', ''json'', ''-show_format'',
      ''-show_streams'', str_path p]"

text \<open>
  The loop over the streams of \<open>probe_file\<close>: the first stream whose \<open>codec_type\<close> is
  \<open>audio\<close> gives the sample rate, the channels and the codec, and ends the loop; a stream
  that is not a dict has no \<open>get\<close>. The result is \<open>(sr, ch, codec)\<close>.
\<close>

definition stream_is_audio :: "(string \<times> 'f json) list \<Rightarrow> bool" where
  "stream_is_audio s = (dict_get s ''codec_type'' = JStr ''audio'')"

definition stream_int :: "'f env \<Rightarrow> (string \<times> 'f json) list \<Rightarrow> string \<Rightarrow> int option" where
  "stream_int E s k = (case map_of s k of None \<Rightarrow> None | Some v \<Rightarrow> py_int E v)"

fun scan_streams :: "'f env \<Rightarrow> 'f json list \<Rightarrow> error + (int option \<times> int option \<times> 'f json)" where
  "scan_streams E [] = Inr (None, None, JNull)"
| "scan_streams E (JObj s # rest) =
     (if stream_is_audio s
      then Inr (stream_int E s ''sample_rate'', stream_int E s ''channels'', dict_get s ''codec_name'')
      else scan_streams E rest)"
| "scan_streams E (_ # rest) = Inl AttributeError"

text \<open>
  \<open>fmt_number conv fmt k\<close> is the pattern
  \<^verbatim>\<open>x = None; if k in fmt: try: x = conv(fmt[k]) except Exception: x = None\<close>
  of \<open>probe_file\<close>: the membership test is outside the \<open>try\<close>, the subscript and the
  conversion are inside.
\<close>

definition fmt_number :: "('f json \<Rightarrow> 'a option) \<Rightarrow> 'f json \<Rightarrow> string \<Rightarrow> error + 'a option" where
  "fmt_number conv fmt k =
     (case py_contains k fmt of
        Inl e \<Rightarrow> Inl e
      | Inr present \<Rightarrow>
          Inr (if present then (case py_getitem fmt k of None \<Rightarrow> None | Some v \<Rightarrow> conv v) else None))"

text \<open>\<open>probe_file\<close> from \<open>data = json.loads(raw)\<close> on.\<close>

definition probe_data :: "'f env \<Rightarrow> path \<Rightarrow> 'f json \<Rightarrow> error + 'f AudioInfo" where
  "probe_data E p data =
     (case data of
        JObj items \<Rightarrow>
          (let fmt = (if truthy E (dict_get items ''format'') then dict_get items ''format'' else JObj []) in
           case fmt_number (py_float E) fmt ''duration'' of
             Inl e \<Rightarrow> Inl e
           | Inr None \<Rightarrow> Inl (FFprobeError ''Could not determine duration'')
           | Inr (Some duration) \<Rightarrow>
               (case fmt_number (py_int E) fmt ''bit_rate'' of
                  Inl e \<Rightarrow> Inl e
                | Inr br \<Rightarrow>
                    (case py_iter (case map_of items ''streams'' of None \<Rightarrow> JArr [] | Some v \<Rightarrow> v) of
                       Inl e \<Rightarrow> Inl e
                     | Inr ss \<Rightarrow>
                         (case scan_streams E ss of
                            Inl e \<Rightarrow> Inl e
                          | Inr (sr, ch, cd) \<Rightarrow>
                              Inr \<lparr>path = p, duration_s = duration, sample_rate = sr,
                                   channels = ch, codec = cd, bit_rate = br\<rparr>))))
      | _ \<Rightarrow> Inl AttributeError)"

definition probe_file :: "'f env \<Rightarrow> path \<Rightarrow> effect list \<Rightarrow> (error + 'f AudioInfo) \<times> effect list" where
  "probe_file E p w =
     (case probe_run E (probe_cmd p) w of
        (Inl e, w') \<Rightarrow> (Inl e, w')
      | (Inr raw, w') \<Rightarrow>
          (case json_loads E raw of
             Inl x \<Rightarrow> (Inl (External x), w')
           | Inr data \<Rightarrow> (probe_data E p data, w')))"

fun probe_files_loop ::
  "'f env \<Rightarrow> path list \<Rightarrow> 'f AudioInfo list \<Rightarrow> effect list \<Rightarrow> (error + 'f AudioInfo list) \<times> effect list" where
  "probe_files_loop E [] out w = (Inr out, w)"
| "probe_files_loop E (p # ps) out w =
     (case probe_file E p w of
        (Inl e, w') \<Rightarrow> (Inl e, w')
      | (Inr info, w') \<Rightarrow> probe_files_loop E ps (out @ [info]) w')"

definition probe_files :: "'f env \<Rightarrow> path list \<Rightarrow> effect list \<Rightarrow> (error + 'f AudioInfo list) \<times> effect list" where
  "probe_files E paths w = probe_files_loop E paths [] w"

section \<open>\<open>audio/convert.py\<close>\<close>

record ConvertOptions =
  out_dir :: path
  sample_rate :: int
  channels :: int
  bit_depth :: int
  overwrite :: bool
  force_wav :: bool

definition pcm_codec :: "int \<Rightarrow> error + string" where
  "pcm_codec depth =
     (case map_of [(16, ''pcm_s16le''), (24, ''pcm_s24le''), (32, ''pcm_s32le'')] depth of
        None \<Rightarrow> Inl (ValueError ''bit_depth must be one of 16, 24, 32'')
      | Some c \<Rightarrow> Inr c)"

text \<open>The two lines of \<open>convert_file\<close> that name the output.\<close>

definition out_ext :: "ConvertOptions \<Rightarrow> path \<Rightarrow> string" where
  "out_ext opts in_path = (if force_wav opts then ''.wav'' else suffix in_path)"

definition out_path :: "ConvertOptions \<Rightarrow> path \<Rightarrow> path" where
  "out_path opts in_path = joinpath (out_dir opts) (stem in_path @ out_ext opts in_path)"

text \<open>The argument vector up to the codec, and the codec arguments (which may raise).\<close>

definition cmd_input :: "ConvertOptions \<Rightarrow> path \<Rightarrow> string list" where
  "cmd_input opts in_path =
     [''ffmpeg''] @ [if overwrite opts then ''-y'' else ''-n''] @
     [''-i'', str_path in_path, ''-vn'', ''-ac'', str_int (ConvertOptions.channels opts),
      ''-ar'', str_int (ConvertOptions.sample_rate opts)]"

definition cmd_codec :: "ConvertOptions \<Rightarrow> path \<Rightarrow> error + string list" where
  "cmd_codec opts in_path =
     (if lower (out_ext opts in_path) = ''.wav''
      then (case pcm_codec (bit_depth opts) of Inl e \<Rightarrow> Inl e | Inr c \<Rightarrow> Inr [''-c:a'', c])
      else Inr [''-c:a'', ''copy''])"

definition convert_file ::
  "'f env \<Rightarrow> path \<Rightarrow> ConvertOptions \<Rightarrow> effect list \<Rightarrow> (error + path) \<times> effect list" where
  "convert_file E in_path opts w =
     (case mkdir E w (out_dir opts) of
        Some x \<Rightarrow> (Inl (External x), w @ [Mkdir (out_dir opts)])
      | None \<Rightarrow>
          (let w1 = w @ [Mkdir (out_dir opts)] in
           case cmd_codec opts in_path of
             Inl e \<Rightarrow> (Inl e, w1)
           | Inr codec_args \<Rightarrow>
               (let cmd = cmd_input opts in_path @ codec_args @ [str_path (out_path opts in_path)] in
                (case subprocess_run E w1 cmd of
                   Inl x \<Rightarrow> Inl (External x)
                 | Inr p \<Rightarrow>
                     if returncode p \<noteq> 0
                     then Inl (FFmpegError (if strip (stderr p) \<noteq> [] then strip (stderr p) else ''ffmpeg failed''))
                     else Inr (out_path opts in_path),
                 w1 @ [Run cmd]))))"

fun convert_files_loop ::
  "'f env \<Rightarrow> ConvertOptions \<Rightarrow> path list \<Rightarrow> path list \<Rightarrow> effect list \<Rightarrow> (error + path list) \<times> effect list" where
  "convert_files_loop E opts [] out w = (Inr out, w)"
| "convert_files_loop E opts (p # ps) out w =
     (case convert_file E p opts w of
        (Inl e, w') \<Rightarrow> (Inl e, w')
      | (Inr outp, w') \<Rightarrow> convert_files_loop E opts ps (out @ [outp]) w')"

definition convert_files ::
  "'f env \<Rightarrow> path list \<Rightarrow> ConvertOptions \<Rightarrow> effect list \<Rightarrow> (error + path list) \<times> effect list" where
  "convert_files E paths opts w = convert_files_loop E opts paths [] w"

section \<open>\<open>app/window.py\<close>: the batch functions\<close>

text \<open>
  The closures \<open>fn\<close> of \<open>ProbeTab._run\<close> and \<open>ConvertTab._run\<close>. The loop variables are the
  total \<open>n\<close>, the index \<open>idx\<close> (from 1), the paths left and the outputs so far. An item that raises
  ends the loop with that exception; an item that returns is appended and then reported.
\<close>

definition progress :: "int \<Rightarrow> int \<Rightarrow> string \<Rightarrow> path \<Rightarrow> ProgressEvent" where
  "progress idx n verb p =
     \<lparr>ndone = idx, total = n,
      message = str_int idx @ ''/'' @ str_int n @ '' '' @ verb @ '' '' @ name p\<rparr>"

fun ProbeTab_fn_loop ::
  "'f env \<Rightarrow> int \<Rightarrow> int \<Rightarrow> path list \<Rightarrow> 'f AudioInfo list \<Rightarrow> effect list
     \<Rightarrow> (error + 'f AudioInfo list) \<times> effect list" where
  "ProbeTab_fn_loop E n idx [] out w = (Inr out, w)"
| "ProbeTab_fn_loop E n idx (p # ps) out w =
     (case probe_file E p w of
        (Inl e, w') \<Rightarrow> (Inl e, w')
      | (Inr info, w') \<Rightarrow>
          ProbeTab_fn_loop E n (idx + 1) ps (out @ [info]) (w' @ [Emit (progress idx n ''Probed'' p)]))"

definition ProbeTab_fn ::
  "'f env \<Rightarrow> path list \<Rightarrow> effect list \<Rightarrow> (error + 'f AudioInfo list) \<times> effect list" where
  "ProbeTab_fn E paths w = ProbeTab_fn_loop E (int (length paths)) 1 paths [] w"

fun ConvertTab_fn_loop ::
  "'f env \<Rightarrow> ConvertOptions \<Rightarrow> int \<Rightarrow> int \<Rightarrow> path list \<Rightarrow> path list \<Rightarrow> effect list
     \<Rightarrow> (error + path list) \<times> effect list" where
  "ConvertTab_fn_loop E opts n idx [] outs w = (Inr outs, w)"
| "ConvertTab_fn_loop E opts n idx (p # ps) outs w =
     (case convert_file E p opts w of
        (Inl e, w') \<Rightarrow> (Inl e, w')
      | (Inr outp, w') \<Rightarrow>
          ConvertTab_fn_loop E opts n (idx + 1) ps (outs @ [outp])
            (w' @ [Emit (progress idx n ''Converted'' p)]))"

definition ConvertTab_fn ::
  "'f env \<Rightarrow> ConvertOptions \<Rightarrow> path list \<Rightarrow> effect list \<Rightarrow> (error + path list) \<times> effect list" where
  "ConvertTab_fn E opts paths w = ConvertTab_fn_loop E opts (int (length paths)) 1 paths [] w"

text \<open>
  Both loops have one shape: \<open>batch\<close> is that shape for any per-item operation \<open>op\<close> and
  verb; \<open>emitted\<close> and \<open>runs\<close> read the progress events and the tool runs off a history.
\<close>

fun batch ::
  "(path \<Rightarrow> effect list \<Rightarrow> (error + 'a) \<times> effect list) \<Rightarrow> string \<Rightarrow> int \<Rightarrow> int \<Rightarrow> path list
     \<Rightarrow> 'a list \<Rightarrow> effect list \<Rightarrow> (error + 'a list) \<times> effect list" where
  "batch op verb n idx [] out w = (Inr out, w)"
| "batch op verb n idx (p # ps) out w =
     (case op p w of
        (Inl e, w') \<Rightarrow> (Inl e, w')
      | (Inr x, w') \<Rightarrow>
          batch op verb n (idx + 1) ps (out @ [x]) (w' @ [Emit (progress idx n verb p)]))"

fun emitted :: "effect list \<Rightarrow> ProgressEvent list" where
  "emitted [] = []"
| "emitted (Emit ev # w) = ev # emitted w"
| "emitted (_ # w) = emitted w"

fun runs :: "effect list \<Rightarrow> string list list" where
  "runs [] = []"
| "runs (Run cmd # w) = cmd # runs w"
| "runs (_ # w) = runs w"

text \<open>
  What section 4.3 of the specification asks of a batch on items that all succeed, as the
  history it adds: for each item in input order the calls of its operation, then its progress
  event, numbered from \<open>idx\<close>. \<open>probe_calls\<close> and \<open>convert_calls\<close> are the calls a
  \<open>probe_file\<close> and a \<open>convert_file\<close> that return make.
\<close>

fun spec_batch_history ::
  "(path \<Rightarrow> effect list) \<Rightarrow> string \<Rightarrow> int \<Rightarrow> int \<Rightarrow> path list \<Rightarrow> effect list" where
  "spec_batch_history calls verb n idx [] = []"
| "spec_batch_history calls verb n idx (p # ps) =
     calls p @ [Emit (progress idx n verb p)] @ spec_batch_history calls verb n (idx + 1) ps"

definition probe_calls :: "path \<Rightarrow> effect list" where
  "probe_calls p = [Run (probe_cmd p)]"

definition convert_calls :: "ConvertOptions \<Rightarrow> path \<Rightarrow> effect list" where
  "convert_calls opts p =
     [Mkdir (out_dir opts),
      Run (cmd_input opts p @ (case cmd_codec opts p of Inr args \<Rightarrow> args | Inl e \<Rightarrow> []) @
           [str_path (out_path opts p)])]"

section \<open>\<open>app/window.py\<close>: \<open>Worker\<close> and \<open>JobController\<close>\<close>

text \<open>
  The two signals, with what they carry: \<open>progressed\<close> a progress event, \<open>finished\<close> the
  pair of a result and an error, one of them \<open>None\<close>.
\<close>

datatype 'a signal = Progressed ProgressEvent | Finished "'a option" "error option"

text \<open>
  \<open>Worker.run\<close> calls \<open>fn\<close> inside \<open>try\<close>; \<open>fn\<close> emits its progress events while it runs;
  \<open>run\<close> then emits \<open>finished\<close> with the result, or, in the \<open>except Exception\<close> branch, with
  the exception. The value is the list of signals emitted during the call, in order, and the
  history after it.
\<close>

definition Worker_run ::
  "(effect list \<Rightarrow> (error + 'a) \<times> effect list) \<Rightarrow> effect list \<Rightarrow> 'a signal list \<times> effect list" where
  "Worker_run fn w =
     (case fn w of
        (Inr out, w') \<Rightarrow> (map Progressed (emitted (drop (length w) w')) @ [Finished (Some out) None], w')
      | (Inl e, w') \<Rightarrow> (map Progressed (emitted (drop (length w) w')) @ [Finished None (Some e)], w'))"

text \<open>
  The controller, the threads it has started and the process it lives in. A thread and its
  worker share one number, the position of their function in \<open>launched\<close>. \<open>thread\<close> and
  \<open>worker\<close> are the fields \<open>_thread\<close> and \<open>_worker\<close>; \<open>wired\<close> lists the workers whose
  \<open>finished\<close> signal is connected to the controller's (\<open>start\<close> connects, nothing in the
  program disconnects); \<open>quit_sent\<close> lists the threads \<open>quit()\<close> was called on; \<open>status\<close> is
  the life of a \<open>QThread\<close> object; \<open>pending i\<close> is what the \<open>Worker.run\<close> of thread \<open>i\<close> has
  yet to emit; \<open>posted\<close> is the queue of emissions on their way to the interactive context,
  and \<open>received\<close> what the listeners have been given, both with the number of the emitting
  thread and oldest first; \<open>crashed\<close> says that the process has been aborted.

  A \<open>QThread\<close> made by \<open>start\<close> has no parent and one owner, the field \<open>_thread\<close>. It is
  \<open>Running\<close> from \<open>t.start()\<close> until its event loop has ended; the loop ends after it was
  told to quit, which the connection of \<open>finished\<close> to \<open>t.quit\<close> does when the \<open>finished\<close>
  emission of the worker is delivered. The thread is then \<open>Ended\<close>, and the connection of
  \<open>t.finished\<close> to \<open>t.deleteLater\<close> has the interactive context delete the object:
  \<open>Deleted\<close>. Qt ends the process when a \<open>QThread\<close> object is destroyed while its thread is
  running, and a method call on a deleted object raises \<open>RuntimeError\<close>.
\<close>

datatype tstate = NotStarted | Running | Ended | Deleted

datatype raised = RuntimeError string

record 'a JobController =
  thread :: "nat option"
  worker :: "nat option"
  wired :: "nat list"
  quit_sent :: "nat list"
  launched :: "((effect list \<Rightarrow> (error + 'a) \<times> effect list) \<times> effect list) list"
  status :: "nat \<Rightarrow> tstate"
  pending :: "nat \<Rightarrow> 'a signal list"
  posted :: "(nat \<times> 'a signal) list"
  received :: "(nat \<times> 'a signal) list"
  crashed :: bool

definition JobController_init :: "'a JobController" where
  "JobController_init =
     \<lparr>thread = None, worker = None, wired = [], quit_sent = [], launched = [],
      status = (\<lambda>i. NotStarted), pending = (\<lambda>i. []), posted = [], received = [],
      crashed = False\<rparr>"

text \<open>
  \<open>stop\<close>. With no thread kept, the two fields are cleared. With a thread kept,
  \<open>self._thread.quit()\<close> raises when the object has been deleted, and nothing is cleared;
  otherwise \<open>self._thread = None\<close> gives up the only reference to the object, which destroys
  it: that ends the process when the thread is still running.
\<close>

definition stop :: "'a JobController \<Rightarrow> raised option \<times> 'a JobController" where
  "stop c =
     (case thread c of
        None \<Rightarrow> (None, c\<lparr>thread := None, worker := None\<rparr>)
      | Some t \<Rightarrow>
          (case status c t of
             Deleted \<Rightarrow> (Some (RuntimeError ''Internal C++ object already deleted''), c)
           | Running \<Rightarrow>
               (None, c\<lparr>quit_sent := quit_sent c @ [t], thread := None, worker := None,
                         crashed := True\<rparr>)
           | _ \<Rightarrow> (None, c\<lparr>quit_sent := quit_sent c @ [t], thread := None, worker := None\<rparr>)))"

text \<open>
  \<open>start\<close>: stop; when that raised or ended the process, nothing follows; otherwise make
  the thread and the worker, connect, keep both, start the thread. The new thread has the
  whole of \<open>Worker.run\<close> on \<open>fn\<close> before it; \<open>w\<close> is the history \<open>fn\<close> runs from.
\<close>

definition start ::
  "(effect list \<Rightarrow> (error + 'a) \<times> effect list) \<Rightarrow> effect list \<Rightarrow> 'a JobController
     \<Rightarrow> raised option \<times> 'a JobController" where
  "start fn w c =
     (case stop c of
        (Some e, c1) \<Rightarrow> (Some e, c1)
      | (None, c1) \<Rightarrow>
          if crashed c1 then (None, c1)
          else
            (let i = length (launched c1) in
             (None,
              c1\<lparr>wired := wired c1 @ [i], thread := Some i, worker := Some i,
                  launched := launched c1 @ [(fn, w)], status := (status c1)(i := Running),
                  pending := (pending c1)(i := fst (Worker_run fn w))\<rparr>)))"

fun is_finished :: "'a signal \<Rightarrow> bool" where
  "is_finished (Finished out err) = True"
| "is_finished (Progressed ev) = False"

text \<open>
  \<open>work i\<close>: thread \<open>i\<close> runs up to its next emission. A progress event is emitted on the
  controller's own \<open>progressed\<close> signal (the closures call \<open>self.controller.progressed.emit\<close>);
  \<open>finished\<close> is emitted on the worker's signal and reaches the controller's through the
  connection. \<open>dispatch\<close>: the interactive context delivers the oldest queued emission; with
  a \<open>finished\<close> emission it also calls the \<open>quit\<close> of the emitting thread. \<open>thread_ends\<close>: the
  event loop of a thread that was told to quit, and whose \<open>run\<close> has returned, ends.
  \<open>delete_later\<close>: the interactive context deletes the object of an ended thread.
\<close>

definition work :: "nat \<Rightarrow> 'a JobController \<Rightarrow> 'a JobController" where
  "work i c =
     (case pending c i of
        [] \<Rightarrow> c
      | sg # rest \<Rightarrow>
          c\<lparr>pending := (pending c)(i := rest),
            posted := posted c @
              (case sg of
                 Progressed ev \<Rightarrow> [(i, sg)]
               | Finished out err \<Rightarrow> if i \<in> set (wired c) then [(i, sg)] else [])\<rparr>)"

definition dispatch :: "'a JobController \<Rightarrow> 'a JobController" where
  "dispatch c =
     (case posted c of
        [] \<Rightarrow> c
      | x # q \<Rightarrow>
          c\<lparr>posted := q, received := received c @ [x],
            quit_sent := (if is_finished (snd x) then quit_sent c @ [fst x] else quit_sent c)\<rparr>)"

definition thread_ends :: "nat \<Rightarrow> 'a JobController \<Rightarrow> 'a JobController" where
  "thread_ends i c =
     (if status c i = Running \<and> i \<in> set (quit_sent c) \<and> pending c i = []
      then c\<lparr>status := (status c)(i := Ended)\<rparr> else c)"

definition delete_later :: "nat \<Rightarrow> 'a JobController \<Rightarrow> 'a JobController" where
  "delete_later i c =
     (if status c i = Ended then c\<lparr>status := (status c)(i := Deleted)\<rparr> else c)"

text \<open>
  What can happen, one at a time, in any order: a call of \<open>start\<close> or of \<open>stop\<close> and a
  delivery or a deletion in the interactive context, an emission in a worker thread, the end
  of a thread. An exception of \<open>start\<close> or \<open>stop\<close> goes to their caller and leaves the state
  they reached. Nothing happens in a process that was aborted.
\<close>

datatype 'a action =
    Start "effect list \<Rightarrow> (error + 'a) \<times> effect list" "effect list"
  | Stop
  | Work nat
  | Dispatch
  | ThreadEnds nat
  | DeleteLater nat

fun step :: "'a action \<Rightarrow> 'a JobController \<Rightarrow> 'a JobController" where
  "step a c =
     (if crashed c then c
      else (case a of
              Start fn w \<Rightarrow> snd (start fn w c)
            | Stop \<Rightarrow> snd (stop c)
            | Work i \<Rightarrow> work i c
            | Dispatch \<Rightarrow> dispatch c
            | ThreadEnds i \<Rightarrow> thread_ends i c
            | DeleteLater i \<Rightarrow> delete_later i c))"



section \<open>Example inputs\<close>

text \<open>
  An outside world for the examples: the tool answers by its argument vector alone,
  directories can always be made, the decoded document is fixed, floats are rationals, and
  the strings \<open>float\<close> and \<open>int\<close> accept are the few the examples use.
\<close>

definition example_env :: "(string list \<Rightarrow> proc) \<Rightarrow> rat json \<Rightarrow> rat env" where
  "example_env tool doc =
     \<lparr>subprocess_run = (\<lambda>w cmd. Inr (tool cmd)), mkdir = (\<lambda>w d. None),
      json_loads = (\<lambda>s. Inr doc),
      float_of_str = (\<lambda>s. if s = ''12.5'' then Some (25 / 2) else None),
      float_of_int = (\<lambda>i. Some (of_int i)),
      float_nonzero = (\<lambda>x. x \<noteq> 0),
      int_of_str = map_of [(''44100'', 44100), (''2'', 2)],
      int_of_float = (\<lambda>x. Some (if 0 \<le> x then \<lfloor>x\<rfloor> else \<lceil>x\<rceil>))\<rparr>"

definition exits :: "int \<Rightarrow> string \<Rightarrow> proc" where
  "exits code err = \<lparr>returncode = code, stdout = [], stderr = err\<rparr>"

definition example_doc :: "rat json" where
  "example_doc =
     JObj [(''format'', JObj [(''duration'', JStr ''12.5'')]),
           (''streams'',
            JArr [JObj [(''codec_type'', JStr ''video''), (''codec_name'', JStr ''h264'')],
                  JObj [(''codec_type'', JStr ''audio''), (''sample_rate'', JStr ''44100''),
                        (''channels'', JStr ''2''), (''codec_name'', JStr ''pcm_s16le'')],
                  JObj [(''codec_type'', JStr ''audio''), (''sample_rate'', JStr ''2''),
                        (''codec_name'', JStr ''mp3'')]])]"

definition example_opts :: "int \<Rightarrow> bool \<Rightarrow> ConvertOptions" where
  "example_opts depth wav =
     \<lparr>out_dir = Path ''out'', sample_rate = 48000, channels = 1, bit_depth = depth,
      overwrite = False, force_wav = wav\<rparr>"

section \<open>Facts about the model\<close>

lemma runs_append: "runs (w @ v) = runs w @ runs v"
  by (induction w rule: runs.induct) auto

lemma emitted_append: "emitted (w @ v) = emitted w @ emitted v"
  by (induction w rule: emitted.induct) auto

lemma pcm_codec_cases:
  "pcm_codec d = (if d = 16 then Inr ''pcm_s16le'' else if d = 24 then Inr ''pcm_s24le''
     else if d = 32 then Inr ''pcm_s32le'' else Inl (ValueError ''bit_depth must be one of 16, 24, 32''))"
  by (simp add: pcm_codec_def)

lemma convert_file_cases:
  "convert_file E p opts w =
     (case mkdir E w (out_dir opts) of
        Some x \<Rightarrow> (Inl (External x), w @ [Mkdir (out_dir opts)])
      | None \<Rightarrow>
          (case cmd_codec opts p of
             Inl e \<Rightarrow> (Inl e, w @ [Mkdir (out_dir opts)])
           | Inr args \<Rightarrow>
               (case subprocess_run E (w @ [Mkdir (out_dir opts)])
                       (cmd_input opts p @ args @ [str_path (out_path opts p)]) of
                  Inl x \<Rightarrow> Inl (External x)
                | Inr pr \<Rightarrow>
                    if returncode pr \<noteq> 0
                    then Inl (FFmpegError (if strip (stderr pr) \<noteq> [] then strip (stderr pr) else ''ffmpeg failed''))
                    else Inr (out_path opts p),
                w @ [Mkdir (out_dir opts), Run (cmd_input opts p @ args @ [str_path (out_path opts p)])])))"
  unfolding convert_file_def Let_def by (simp split: option.split sum.split)

lemma cmd_codec_error: "cmd_codec opts p = Inl e \<Longrightarrow> e = ValueError ''bit_depth must be one of 16, 24, 32''"
  by (auto simp: cmd_codec_def pcm_codec_cases split: if_splits)

lemma convert_file_Inr: "fst (convert_file E p opts w) = Inr outp \<Longrightarrow> outp = out_path opts p"
  by (auto simp: convert_file_cases split: option.splits sum.splits if_splits)

lemma split_on_absent: "c \<notin> set s \<Longrightarrow> split_on c s = [s]"
  by (induction s) auto

lemma Path_single:
  assumes "CHR ''/'' \<notin> set s" and "s \<noteq> []" and "s \<noteq> ''.''"
  shows "Path s = PosixPath [] [s]"
proof -
  from assms(1,2) have "hd s \<noteq> CHR ''/''" by (cases s) auto
  with assms(2) have "take 1 s \<noteq> ''/''" and "take 2 s \<noteq> ''//''" by (cases s; cases "tl s"; auto)+
  with assms show ?thesis by (simp add: Path_def split_on_absent)
qed

lemma stem_suffix: "stem p @ suffix p = name p"
  by (simp add: stem_def suffix_def Let_def split: option.split)

lemma stem_subset: "set (stem p) \<subseteq> set (name p)"
  by (auto simp: stem_def Let_def split: option.splits if_splits dest: in_set_takeD)

lemma suffix_subset: "set (suffix p) \<subseteq> set (name p)"
  by (auto simp: suffix_def Let_def split: option.splits if_splits dest: in_set_dropD)

lemma stem_nonempty: "name p \<noteq> [] \<Longrightarrow> stem p \<noteq> []"
  by (auto simp: stem_def Let_def split: option.splits if_splits)

lemma out_name_ok:
  assumes "name p \<noteq> []" and "name p \<noteq> ''.''" and "CHR ''/'' \<notin> set (name p)"
  shows "CHR ''/'' \<notin> set (stem p @ out_ext opts p)" and "stem p @ out_ext opts p \<noteq> []"
    and "stem p @ out_ext opts p \<noteq> ''.''"
proof -
  show "CHR ''/'' \<notin> set (stem p @ out_ext opts p)"
    using assms(3) stem_subset [of p] suffix_subset [of p] by (auto simp: out_ext_def)
  show "stem p @ out_ext opts p \<noteq> []" using stem_nonempty [OF assms(1)] by simp
  show "stem p @ out_ext opts p \<noteq> ''.''"
  proof (cases "force_wav opts")
    case True
    have "length (stem p @ ''.wav'') \<noteq> length ''.''" by simp
    then have "stem p @ ''.wav'' \<noteq> ''.''" by metis
    with True show ?thesis by (simp add: out_ext_def)
  next
    case False
    with assms(2) show ?thesis by (simp add: out_ext_def stem_suffix)
  qed
qed

lemma out_path_names:
  assumes "name p \<noteq> []" and "name p \<noteq> ''.''" and "CHR ''/'' \<notin> set (name p)"
  shows "out_path opts p = PosixPath (anchor (out_dir opts)) (names (out_dir opts) @ [stem p @ out_ext opts p])"
  using out_name_ok [OF assms, of opts]
  by (simp add: out_path_def joinpath_def Path_single)

section \<open>\<open>convert_file\<close>\<close>

lemmas example_defs =
  example_env_def exits_def example_opts_def Path_def str_path_def joinpath_def
  out_path_def out_ext_def stem_def suffix_def name_def cmd_input_def cmd_codec_def
  pcm_codec_cases str_int_def str_nat.simps digit_def lower_def lower_char_def
  strip_def isspace_def

text \<open>
  The counterexample to C5 as stated: with force-WAV off and an input that is not a
  \<open>.wav\<close>, a bit depth of 8 is never looked at; the conversion runs the tool with
  \<open>-c:a copy\<close> and returns the output path.
\<close>

theorem convert_copy_skips_bit_depth:
  "convert_file (example_env (\<lambda>cmd. exits 0 []) example_doc) (Path ''foo.mp3'') (example_opts 8 False) [] =
     (Inr (PosixPath [] [''out'', ''foo.mp3'']),
      [Mkdir (PosixPath [] [''out'']),
       Run [''ffmpeg'', ''-n'', ''-i'', ''foo.mp3'', ''-vn'', ''-ac'', ''1'', ''-ar'', ''48000'',
            ''-c:a'', ''copy'', ''out/foo.mp3'']])"
  by (simp add: convert_file_cases example_defs)

lemma convert_file_wav:
  assumes "mkdir E w (out_dir opts) = None" and "lower (out_ext opts p) = ''.wav''"
  shows "convert_file E p opts w =
     (case pcm_codec (bit_depth opts) of
        Inl e \<Rightarrow> (Inl e, w @ [Mkdir (out_dir opts)])
      | Inr c \<Rightarrow>
          (case subprocess_run E (w @ [Mkdir (out_dir opts)])
                  (cmd_input opts p @ [''-c:a'', c] @ [str_path (out_path opts p)]) of
             Inl x \<Rightarrow> Inl (External x)
           | Inr pr \<Rightarrow>
               if returncode pr \<noteq> 0
               then Inl (FFmpegError (if strip (stderr pr) \<noteq> [] then strip (stderr pr) else ''ffmpeg failed''))
               else Inr (out_path opts p),
           w @ [Mkdir (out_dir opts), Run (cmd_input opts p @ [''-c:a'', c] @ [str_path (out_path opts p)])]))"
  unfolding convert_file_def Let_def cmd_codec_def using assms by (simp split: sum.split)

text \<open>
  Claim C5, amended. When the output directory could be made and the output extension is
  \<open>.wav\<close> in any case of letters (force-WAV set, or such an input), a bit depth of 16, 24 or 32
  makes \<open>convert_file\<close> run the tool with \<open>-c:a pcm_s16le\<close>, \<open>pcm_s24le\<close> or \<open>pcm_s32le\<close>, and any
  other bit depth makes it fail with the \<open>ValueError\<close> of \<open>_pcm_codec\<close> after the \<open>mkdir\<close> and
  before any tool is run. With any other output extension it runs the tool with
  \<open>-c:a copy\<close>, whatever the bit depth.
\<close>

theorem convert_file_bit_depth:
  assumes "mkdir E w (out_dir opts) = None"
  shows "(lower (out_ext opts p) = ''.wav'' \<and> bit_depth opts = 16 \<longrightarrow>
            runs (snd (convert_file E p opts w)) =
              runs w @ [cmd_input opts p @ [''-c:a'', ''pcm_s16le'', str_path (out_path opts p)]]) \<and>
         (lower (out_ext opts p) = ''.wav'' \<and> bit_depth opts = 24 \<longrightarrow>
            runs (snd (convert_file E p opts w)) =
              runs w @ [cmd_input opts p @ [''-c:a'', ''pcm_s24le'', str_path (out_path opts p)]]) \<and>
         (lower (out_ext opts p) = ''.wav'' \<and> bit_depth opts = 32 \<longrightarrow>
            runs (snd (convert_file E p opts w)) =
              runs w @ [cmd_input opts p @ [''-c:a'', ''pcm_s32le'', str_path (out_path opts p)]]) \<and>
         (lower (out_ext opts p) = ''.wav'' \<and>
          bit_depth opts \<noteq> 16 \<and> bit_depth opts \<noteq> 24 \<and> bit_depth opts \<noteq> 32 \<longrightarrow>
            convert_file E p opts w =
              (Inl (ValueError ''bit_depth must be one of 16, 24, 32''), w @ [Mkdir (out_dir opts)]) \<and>
            runs (snd (convert_file E p opts w)) = runs w) \<and>
         (lower (out_ext opts p) \<noteq> ''.wav'' \<longrightarrow>
            runs (snd (convert_file E p opts w)) =
              runs w @ [cmd_input opts p @ [''-c:a'', ''copy'', str_path (out_path opts p)]])"
proof -
  note cf = convert_file_wav [OF assms]
  have a: "runs (snd (convert_file E p opts w)) =
              runs w @ [cmd_input opts p @ [''-c:a'', ''pcm_s16le'', str_path (out_path opts p)]]"
    if "lower (out_ext opts p) = ''.wav''" "bit_depth opts = 16"
    using that by (simp add: cf pcm_codec_cases runs_append)
  have b: "runs (snd (convert_file E p opts w)) =
              runs w @ [cmd_input opts p @ [''-c:a'', ''pcm_s24le'', str_path (out_path opts p)]]"
    if "lower (out_ext opts p) = ''.wav''" "bit_depth opts = 24"
    using that by (simp add: cf pcm_codec_cases runs_append)
  have c: "runs (snd (convert_file E p opts w)) =
              runs w @ [cmd_input opts p @ [''-c:a'', ''pcm_s32le'', str_path (out_path opts p)]]"
    if "lower (out_ext opts p) = ''.wav''" "bit_depth opts = 32"
    using that by (simp add: cf pcm_codec_cases runs_append)
  have d: "convert_file E p opts w =
              (Inl (ValueError ''bit_depth must be one of 16, 24, 32''), w @ [Mkdir (out_dir opts)]) \<and>
            runs (snd (convert_file E p opts w)) = runs w"
    if "lower (out_ext opts p) = ''.wav''"
      "bit_depth opts \<noteq> 16 \<and> bit_depth opts \<noteq> 24 \<and> bit_depth opts \<noteq> 32"
    using that by (simp add: cf pcm_codec_cases runs_append)
  have e: "runs (snd (convert_file E p opts w)) =
              runs w @ [cmd_input opts p @ [''-c:a'', ''copy'', str_path (out_path opts p)]]"
    if "lower (out_ext opts p) \<noteq> ''.wav''"
    using that assms by (simp add: convert_file_cases cmd_codec_def runs_append)
  from a b c d e show ?thesis by blast
qed

theorem convert_file_bit_depth_witness:
  "runs (snd (convert_file (example_env (\<lambda>cmd. exits 0 []) example_doc) (Path ''foo.mp3'') (example_opts 24 True) [])) =
     [[''ffmpeg'', ''-n'', ''-i'', ''foo.mp3'', ''-vn'', ''-ac'', ''1'', ''-ar'', ''48000'',
       ''-c:a'', ''pcm_s24le'', ''out/foo.wav'']] \<and>
   convert_file (example_env (\<lambda>cmd. exits 0 []) example_doc) (Path ''foo.mp3'') (example_opts 8 True) [] =
     (Inl (ValueError ''bit_depth must be one of 16, 24, 32''), [Mkdir (PosixPath [] [''out''])]) \<and>
   runs (snd (convert_file (example_env (\<lambda>cmd. exits 0 []) example_doc) (Path ''foo.mp3'') (example_opts 8 False) [])) =
     [[''ffmpeg'', ''-n'', ''-i'', ''foo.mp3'', ''-vn'', ''-ac'', ''1'', ''-ar'', ''48000'',
       ''-c:a'', ''copy'', ''out/foo.mp3'']]"
proof -
  let ?E = "example_env (\<lambda>cmd. exits 0 []) example_doc"
  have m: "mkdir ?E [] (out_dir (example_opts d b)) = None" for d b
    by (simp add: example_env_def)
  have l: "lower (out_ext (example_opts d True) (Path ''foo.mp3'')) = ''.wav''"
    "lower (out_ext (example_opts d False) (Path ''foo.mp3'')) \<noteq> ''.wav''" for d
    by (simp_all add: example_defs)
  from convert_file_bit_depth [OF m, of 24 True "Path ''foo.mp3''"]
    convert_file_bit_depth [OF m, of 8 True "Path ''foo.mp3''"]
    convert_file_bit_depth [OF m, of 8 False "Path ''foo.mp3''"] l
  show ?thesis by (simp add: example_defs)
qed

text \<open>
  Claim C8. The path \<open>convert_file\<close> returns is the output directory joined with the stem
  of the input followed by \<open>.wav\<close> when force-WAV is set and by the input's own suffix
  otherwise; for an input with a proper file name it lies directly in the output directory
  under that name.
\<close>

theorem convert_file_output_path:
  assumes "fst (convert_file E p opts w) = Inr outp"
  shows "outp = joinpath (out_dir opts) (stem p @ (if force_wav opts then ''.wav'' else suffix p)) \<and>
         (name p \<noteq> [] \<and> name p \<noteq> ''.'' \<and> CHR ''/'' \<notin> set (name p) \<longrightarrow>
            anchor outp = anchor (out_dir opts) \<and>
            names outp = names (out_dir opts) @ [stem p @ (if force_wav opts then ''.wav'' else suffix p)])"
proof -
  from assms have o: "outp = out_path opts p" by (rule convert_file_Inr)
  then have "outp = joinpath (out_dir opts) (stem p @ (if force_wav opts then ''.wav'' else suffix p))"
    by (simp add: out_path_def out_ext_def)
  moreover have "anchor outp = anchor (out_dir opts) \<and>
      names outp = names (out_dir opts) @ [stem p @ (if force_wav opts then ''.wav'' else suffix p)]"
    if "name p \<noteq> []" "name p \<noteq> ''.''" "CHR ''/'' \<notin> set (name p)"
    using out_path_names [OF that, of opts] o by (simp add: out_ext_def)
  ultimately show ?thesis by blast
qed

theorem convert_file_output_path_witness:
  "fst (convert_file (example_env (\<lambda>cmd. exits 0 []) example_doc) (Path ''foo.mp3'') (example_opts 16 True) []) =
     Inr (PosixPath [] [''out'', ''foo.wav'']) \<and>
   fst (convert_file (example_env (\<lambda>cmd. exits 0 []) example_doc) (Path ''foo.mp3'') (example_opts 16 False) []) =
     Inr (PosixPath [] [''out'', ''foo.mp3'']) \<and>
   names (PosixPath [] [''out'', ''foo.wav'']) = names (out_dir (example_opts 16 True)) @ [''foo.wav''] \<and>
   names (PosixPath [] [''out'', ''foo.mp3'']) = names (out_dir (example_opts 16 False)) @ [''foo.mp3'']"
proof -
  let ?E = "example_env (\<lambda>cmd. exits 0 []) example_doc"
  have a: "fst (convert_file ?E (Path ''foo.mp3'') (example_opts 16 True) []) = Inr (PosixPath [] [''out'', ''foo.wav''])"
    by (simp add: convert_file_cases example_defs)
  have b: "fst (convert_file ?E (Path ''foo.mp3'') (example_opts 16 False) []) = Inr (PosixPath [] [''out'', ''foo.mp3''])"
    by (simp add: convert_file_cases example_defs)
  from convert_file_output_path [OF a] convert_file_output_path [OF b] a b
  show ?thesis by (simp add: example_defs)
qed

text \<open>
  Claim C9. When \<open>convert_file\<close> fails with the bit-depth \<open>ValueError\<close> or with an
  \<open>FFmpegError\<close>, the \<open>mkdir\<close> of the output directory was its first call and has returned:
  the history is not the one it started from. The validation failure comes right after the
  \<open>mkdir\<close>, the tool failure after the \<open>mkdir\<close> and the one tool run.
\<close>

theorem convert_file_mkdir_first:
  assumes "fst (convert_file E p opts w) = Inl (ValueError m) \<or>
           fst (convert_file E p opts w) = Inl (FFmpegError m)"
  shows "mkdir E w (out_dir opts) = None \<and>
         take (Suc (length w)) (snd (convert_file E p opts w)) = w @ [Mkdir (out_dir opts)] \<and>
         snd (convert_file E p opts w) \<noteq> w \<and>
         (fst (convert_file E p opts w) = Inl (ValueError m) \<longrightarrow>
            snd (convert_file E p opts w) = w @ [Mkdir (out_dir opts)]) \<and>
         (fst (convert_file E p opts w) = Inl (FFmpegError m) \<longrightarrow>
            (\<exists>cmd. snd (convert_file E p opts w) = w @ [Mkdir (out_dir opts), Run cmd]))"
  using assms
  by (auto simp: convert_file_cases split: option.splits sum.splits if_splits dest: cmd_codec_error)

theorem convert_file_mkdir_first_witness:
  "convert_file (example_env (\<lambda>cmd. exits 0 []) example_doc) (Path ''foo.mp3'') (example_opts 8 True) [] =
     (Inl (ValueError ''bit_depth must be one of 16, 24, 32''), [Mkdir (PosixPath [] [''out''])]) \<and>
   convert_file (example_env (\<lambda>cmd. exits 1 ''boom'') example_doc) (Path ''foo.mp3'') (example_opts 16 True) [] =
     (Inl (FFmpegError ''boom''),
      [Mkdir (PosixPath [] [''out'']),
       Run [''ffmpeg'', ''-n'', ''-i'', ''foo.mp3'', ''-vn'', ''-ac'', ''1'', ''-ar'', ''48000'',
            ''-c:a'', ''pcm_s16le'', ''out/foo.wav'']]) \<and>
   mkdir (example_env (\<lambda>cmd. exits 1 ''boom'') example_doc) [] (out_dir (example_opts 16 True)) = None"
proof -
  let ?E = "example_env (\<lambda>cmd. exits 0 []) example_doc"
  let ?F = "example_env (\<lambda>cmd. exits 1 ''boom'') example_doc"
  have a: "convert_file ?E (Path ''foo.mp3'') (example_opts 8 True) [] =
     (Inl (ValueError ''bit_depth must be one of 16, 24, 32''), [Mkdir (PosixPath [] [''out''])])"
    by (simp add: convert_file_cases example_defs)
  have b: "convert_file ?F (Path ''foo.mp3'') (example_opts 16 True) [] =
     (Inl (FFmpegError ''boom''),
      [Mkdir (PosixPath [] [''out'']),
       Run [''ffmpeg'', ''-n'', ''-i'', ''foo.mp3'', ''-vn'', ''-ac'', ''1'', ''-ar'', ''48000'',
            ''-c:a'', ''pcm_s16le'', ''out/foo.wav'']])"
    by (simp add: convert_file_cases example_defs)
  have "fst (convert_file ?F (Path ''foo.mp3'') (example_opts 16 True) []) = Inl (ValueError ''boom'') \<or>
        fst (convert_file ?F (Path ''foo.mp3'') (example_opts 16 True) []) = Inl (FFmpegError ''boom'')"
    by (simp add: b)
  from convert_file_mkdir_first [OF this] a b show ?thesis by simp
qed

text \<open>
  Claim C10. Two inputs with the same stem, and either force-WAV set or the same suffix,
  get the same output path from \<open>convert_file\<close>, whatever their directories; the witness
  gives distinct inputs for which this happens, within one batch too.
\<close>

theorem convert_file_same_output:
  assumes "stem p = stem q" and "force_wav opts \<or> suffix p = suffix q"
    and "fst (convert_file E p opts w) = Inr o1" and "fst (convert_file E q opts w') = Inr o2"
  shows "o1 = o2"
  using assms convert_file_Inr [of E p opts w o1] convert_file_Inr [of E q opts w' o2]
  by (auto simp: out_path_def out_ext_def)

theorem convert_file_same_output_witness:
  "Path ''a/foo.mp3'' \<noteq> Path ''b/foo.mp3'' \<and> Path ''foo.mp3'' \<noteq> Path ''foo.flac'' \<and>
   fst (convert_file (example_env (\<lambda>cmd. exits 0 []) example_doc) (Path ''a/foo.mp3'') (example_opts 16 False) []) =
   fst (convert_file (example_env (\<lambda>cmd. exits 0 []) example_doc) (Path ''b/foo.mp3'') (example_opts 16 False) []) \<and>
   fst (ConvertTab_fn (example_env (\<lambda>cmd. exits 0 []) example_doc) (example_opts 16 True) [Path ''foo.mp3'', Path ''foo.flac''] []) =
     Inr [PosixPath [] [''out'', ''foo.wav''], PosixPath [] [''out'', ''foo.wav'']]"
proof -
  let ?E = "example_env (\<lambda>cmd. exits 0 []) example_doc"
  have a: "fst (convert_file ?E (Path ''a/foo.mp3'') (example_opts 16 False) []) = Inr (PosixPath [] [''out'', ''foo.mp3''])"
    by (simp add: convert_file_cases example_defs)
  obtain o2 where b: "fst (convert_file ?E (Path ''b/foo.mp3'') (example_opts 16 False) []) = Inr o2"
    by (simp add: convert_file_cases example_defs)
  have s: "stem (Path ''a/foo.mp3'') = stem (Path ''b/foo.mp3'')"
    and t: "force_wav (example_opts 16 False) \<or> suffix (Path ''a/foo.mp3'') = suffix (Path ''b/foo.mp3'')"
    by (simp_all add: example_defs)
  have c: "fst (ConvertTab_fn ?E (example_opts 16 True) [Path ''foo.mp3'', Path ''foo.flac''] []) =
     Inr [PosixPath [] [''out'', ''foo.wav''], PosixPath [] [''out'', ''foo.wav'']]"
    by (simp add: ConvertTab_fn_def convert_file_cases example_defs)
  have d: "Path ''a/foo.mp3'' \<noteq> Path ''b/foo.mp3''" "Path ''foo.mp3'' \<noteq> Path ''foo.flac''"
    by (simp_all add: Path_def)
  from convert_file_same_output [OF s t a b] a b c d show ?thesis by simp
qed

section \<open>The batch functions\<close>

lemma ProbeTab_fn_loop_batch:
  "ProbeTab_fn_loop E n idx ps out w = batch (probe_file E) ''Probed'' n idx ps out w"
  by (induction ps arbitrary: idx out w) (auto split: prod.splits sum.splits)

lemma ConvertTab_fn_loop_batch:
  "ConvertTab_fn_loop E opts n idx ps outs w =
     batch (\<lambda>p. convert_file E p opts) ''Converted'' n idx ps outs w"
  by (induction ps arbitrary: idx outs w) (auto split: prod.splits sum.splits)

lemma batch_append:
  "batch op verb n idx (pre @ post) out w =
     (case batch op verb n idx pre out w of
        (Inl e, w') \<Rightarrow> (Inl e, w')
      | (Inr out', w') \<Rightarrow> batch op verb n (idx + int (length pre)) post out' w')"
proof (induction pre arbitrary: idx out w)
  case Nil
  show ?case by simp
next
  case (Cons p pre)
  have "idx + 1 + int (length pre) = idx + int (length (p # pre))" by simp
  with Cons show ?case by (simp split: prod.splits sum.splits add: add.assoc)
qed

lemma probe_data_path: "probe_data E p data = Inr info \<Longrightarrow> AudioInfo.path info = p"
  by (auto simp: probe_data_def Let_def split: json.splits sum.splits option.splits prod.splits)

lemma probe_file_path: "fst (probe_file E p w) = Inr info \<Longrightarrow> AudioInfo.path info = p"
  by (auto simp: probe_file_def split: prod.splits sum.splits dest: probe_data_path)

lemma probe_file_tool_failure:
  assumes "subprocess_run E w (probe_cmd p) = Inr pr" and "returncode pr \<noteq> 0"
  shows "probe_file E p w =
    (Inl (FFprobeError (if strip (stderr pr) \<noteq> [] then strip (stderr pr) else ''ffprobe failed'')),
     w @ [Run (probe_cmd p)])"
  using assms by (simp add: probe_file_def probe_run_def)

lemmas probe_example_defs =
  probe_file_def probe_run_def probe_cmd_def probe_data_def fmt_number_def stream_is_audio_def
  stream_int_def dict_get_def example_doc_def progress_def

lemma emitted_spec_batch_history:
  assumes "\<And>p. emitted (calls p) = []"
  shows "emitted (spec_batch_history calls verb n idx ps) =
         map (\<lambda>k. progress (idx + int k) n verb (ps ! k)) [0..<length ps]"
proof (induction ps arbitrary: idx)
  case Nil
  show ?case by simp
next
  case (Cons p ps)
  have "map (\<lambda>k. progress (idx + int k) n verb ((p # ps) ! k)) [0..<length (p # ps)] =
        progress idx n verb p # map (\<lambda>k. progress (idx + 1 + int k) n verb (ps ! k)) [0..<length ps]"
    by (simp add: map_upt_Suc add.assoc del: upt_Suc)
  with Cons [of "idx + 1"] assms show ?case by (simp add: emitted_append)
qed

lemma spec_batch_history_append:
  "spec_batch_history calls verb n idx (ps @ qs) =
     spec_batch_history calls verb n idx ps @
     spec_batch_history calls verb n (idx + int (length ps)) qs"
proof (induction ps arbitrary: idx)
  case Nil
  show ?case by simp
next
  case (Cons p ps)
  have "idx + 1 + int (length ps) = idx + int (length (p # ps))" by simp
  with Cons [of "idx + 1"] show ?case by simp
qed

lemma batch_all_succeed:
  assumes calls: "\<forall>p h x. fst (op p h) = Inr x \<longrightarrow> snd (op p h) = h @ calls p"
    and ok: "\<forall>k<length ps. \<exists>x. fst (op (ps ! k) (w @ spec_batch_history calls verb n idx (take k ps))) = Inr x"
  shows "\<exists>xs. batch op verb n idx ps out w =
                 (Inr (out @ xs), w @ spec_batch_history calls verb n idx ps) \<and>
              length xs = length ps \<and>
              (\<forall>k<length ps.
                 fst (op (ps ! k) (w @ spec_batch_history calls verb n idx (take k ps))) = Inr (xs ! k))"
  using ok
proof (induction ps arbitrary: idx out w)
  case Nil
  show ?case by simp
next
  case (Cons p ps)
  let ?H = "spec_batch_history calls verb n"
  from Cons.prems have "\<exists>x. fst (op p w) = Inr x" by fastforce
  then obtain x where x: "fst (op p w) = Inr x" by blast
  with calls have opw: "op p w = (Inr x, w @ calls p)" by (metis prod.collapse)
  let ?w2 = "w @ calls p @ [Emit (progress idx n verb p)]"
  have step: "?w2 @ ?H (idx + 1) (take k ps) = w @ ?H idx (take (Suc k) (p # ps))" for k
    by simp
  have "\<forall>k<length ps. \<exists>x. fst (op (ps ! k) (?w2 @ ?H (idx + 1) (take k ps))) = Inr x"
  proof (intro allI impI)
    fix k assume "k < length ps"
    then have "Suc k < length (p # ps)" by simp
    with Cons.prems have "\<exists>x. fst (op ((p # ps) ! Suc k) (w @ ?H idx (take (Suc k) (p # ps)))) = Inr x"
      by blast
    then show "\<exists>x. fst (op (ps ! k) (?w2 @ ?H (idx + 1) (take k ps))) = Inr x"
      unfolding step by simp
  qed
  from Cons.IH [OF this, of "out @ [x]"] obtain xs where
    xs: "batch op verb n (idx + 1) ps (out @ [x]) ?w2 = (Inr ((out @ [x]) @ xs), ?w2 @ ?H (idx + 1) ps)"
      "length xs = length ps"
      "\<forall>k<length ps. fst (op (ps ! k) (?w2 @ ?H (idx + 1) (take k ps))) = Inr (xs ! k)"
    by blast
  have a: "batch op verb n idx (p # ps) out w = (Inr (out @ (x # xs)), w @ ?H idx (p # ps))"
    using opw xs(1) by simp
  have b: "length (x # xs) = length (p # ps)" using xs(2) by simp
  have c: "\<forall>k<length (p # ps). fst (op ((p # ps) ! k) (w @ ?H idx (take k (p # ps)))) = Inr ((x # xs) ! k)"
  proof (intro allI impI)
    fix k assume k: "k < length (p # ps)"
    show "fst (op ((p # ps) ! k) (w @ ?H idx (take k (p # ps)))) = Inr ((x # xs) ! k)"
    proof (cases k)
      case 0
      with x show ?thesis by simp
    next
      case (Suc j)
      with k have "j < length ps" by simp
      with xs(3) have "fst (op (ps ! j) (?w2 @ ?H (idx + 1) (take j ps))) = Inr (xs ! j)" by blast
      then show ?thesis unfolding step Suc by simp
    qed
  qed
  from a b c show ?case by blast
qed

lemma batch_fails_at:
  assumes calls: "\<forall>p h x. fst (op p h) = Inr x \<longrightarrow> snd (op p h) = h @ calls p"
    and ok: "\<forall>k<length pre. \<exists>x. fst (op (pre ! k) (w @ spec_batch_history calls verb n idx (take k pre))) = Inr x"
    and fail: "op p (w @ spec_batch_history calls verb n idx pre) = (Inl e, w2)"
  shows "batch op verb n idx (pre @ p # post) out w = (Inl e, w2)"
proof -
  from batch_all_succeed [where op = op and calls = calls and out = out, OF calls ok]
  obtain xs where "batch op verb n idx pre out w =
      (Inr (out @ xs), w @ spec_batch_history calls verb n idx pre)"
    by blast
  with fail show ?thesis by (simp add: batch_append)
qed

lemma probe_file_calls: "snd (probe_file E p h) = h @ probe_calls p"
  by (simp add: probe_file_def probe_run_def probe_calls_def split: sum.splits)

lemma convert_file_calls:
  "fst (convert_file E p opts h) = Inr x \<Longrightarrow> snd (convert_file E p opts h) = h @ convert_calls opts p"
  by (auto simp: convert_file_cases convert_calls_def split: option.splits sum.splits if_splits)

lemma emitted_probe_calls: "emitted (probe_calls p) = []"
  by (simp add: probe_calls_def)

lemma emitted_convert_calls: "emitted (convert_calls opts p) = []"
  by (simp add: convert_calls_def)

lemma last_progress:
  assumes "ps \<noteq> []"
  shows "last (evs @ map (\<lambda>k. progress (1 + int k) n verb (ps ! k)) [0..<length ps]) =
         progress (int (length ps)) n verb (last ps)"
proof -
  from assms obtain m where m: "length ps = Suc m" by (cases ps) auto
  with assms have "last ps = ps ! m" by (simp add: last_conv_nth)
  with m show ?thesis by simp
qed

lemma ProbeTab_fn_all_succeed:
  assumes "\<forall>k<length paths. \<exists>x. fst (probe_file E (paths ! k)
      (w @ spec_batch_history probe_calls ''Probed'' (int (length paths)) 1 (take k paths))) = Inr x"
  shows "\<exists>infos. ProbeTab_fn E paths w =
            (Inr infos, w @ spec_batch_history probe_calls ''Probed'' (int (length paths)) 1 paths) \<and>
          length infos = length paths \<and>
          (\<forall>k<length paths. fst (probe_file E (paths ! k)
             (w @ spec_batch_history probe_calls ''Probed'' (int (length paths)) 1 (take k paths))) =
               Inr (infos ! k)) \<and>
          map AudioInfo.path infos = paths"
proof -
  have calls: "\<forall>p h x. fst (probe_file E p h) = Inr x \<longrightarrow> snd (probe_file E p h) = h @ probe_calls p"
    by (simp add: probe_file_calls)
  from batch_all_succeed [where op = "probe_file E" and out = "[]", OF calls assms]
  obtain infos where i: "ProbeTab_fn E paths w =
            (Inr infos, w @ spec_batch_history probe_calls ''Probed'' (int (length paths)) 1 paths)"
    "length infos = length paths"
    "\<forall>k<length paths. fst (probe_file E (paths ! k)
       (w @ spec_batch_history probe_calls ''Probed'' (int (length paths)) 1 (take k paths))) =
         Inr (infos ! k)"
    by (auto simp: ProbeTab_fn_def ProbeTab_fn_loop_batch)
  have "map AudioInfo.path infos = paths"
  proof (rule nth_equalityI)
    show "length (map AudioInfo.path infos) = length paths" using i(2) by simp
  next
    fix k assume "k < length (map AudioInfo.path infos)"
    with i(2) have k: "k < length paths" by simp
    with i(3) probe_file_path have "AudioInfo.path (infos ! k) = paths ! k" by blast
    with k i(2) show "map AudioInfo.path infos ! k = paths ! k" by simp
  qed
  with i show ?thesis by blast
qed

lemma ConvertTab_fn_all_succeed:
  assumes "\<forall>k<length paths. \<exists>x. fst (convert_file E (paths ! k) opts
      (w @ spec_batch_history (convert_calls opts) ''Converted'' (int (length paths)) 1 (take k paths))) = Inr x"
  shows "ConvertTab_fn E opts paths w =
           (Inr (map (out_path opts) paths),
            w @ spec_batch_history (convert_calls opts) ''Converted'' (int (length paths)) 1 paths)"
proof -
  have calls: "\<forall>p h x. fst (convert_file E p opts h) = Inr x \<longrightarrow>
      snd (convert_file E p opts h) = h @ convert_calls opts p"
    by (simp add: convert_file_calls)
  from batch_all_succeed [where op = "\<lambda>p. convert_file E p opts" and out = "[]", OF calls assms]
  obtain outs where o: "ConvertTab_fn E opts paths w =
            (Inr outs, w @ spec_batch_history (convert_calls opts) ''Converted'' (int (length paths)) 1 paths)"
    "length outs = length paths"
    "\<forall>k<length paths. fst (convert_file E (paths ! k) opts
       (w @ spec_batch_history (convert_calls opts) ''Converted'' (int (length paths)) 1 (take k paths))) =
         Inr (outs ! k)"
    by (auto simp: ConvertTab_fn_def ConvertTab_fn_loop_batch)
  have "outs = map (out_path opts) paths"
  proof (rule nth_equalityI)
    show "length outs = length (map (out_path opts) paths)" using o(2) by simp
  next
    fix k assume "k < length outs"
    with o(2) have k: "k < length paths" by simp
    with o(3) convert_file_Inr have "outs ! k = out_path opts (paths ! k)" by blast
    with k show "outs ! k = map (out_path opts) paths ! k" by simp
  qed
  with o(1) show ?thesis by simp
qed

lemma spec_events:
  assumes "\<And>p. emitted (calls p) = []" and "paths \<noteq> []"
  shows "emitted (w @ spec_batch_history calls verb (int (length paths)) 1 paths) =
           emitted w @ map (\<lambda>k. progress (1 + int k) (int (length paths)) verb (paths ! k)) [0..<length paths]"
    and "map ndone (emitted (spec_batch_history calls verb (int (length paths)) 1 paths)) =
           map (\<lambda>k. 1 + int k) [0..<length paths]"
    and "map total (emitted (spec_batch_history calls verb (int (length paths)) 1 paths)) =
           replicate (length paths) (int (length paths))"
    and "ndone (last (emitted (w @ spec_batch_history calls verb (int (length paths)) 1 paths))) =
           int (length paths)"
proof -
  note e = emitted_spec_batch_history [of calls verb "int (length paths)" 1 paths, OF assms(1)]
  show "emitted (w @ spec_batch_history calls verb (int (length paths)) 1 paths) =
           emitted w @ map (\<lambda>k. progress (1 + int k) (int (length paths)) verb (paths ! k)) [0..<length paths]"
    by (simp add: emitted_append e)
  show "map ndone (emitted (spec_batch_history calls verb (int (length paths)) 1 paths)) =
           map (\<lambda>k. 1 + int k) [0..<length paths]"
    by (simp add: e progress_def o_def)
  show "map total (emitted (spec_batch_history calls verb (int (length paths)) 1 paths)) =
           replicate (length paths) (int (length paths))"
    by (simp add: e progress_def o_def map_replicate_const)
  show "ndone (last (emitted (w @ spec_batch_history calls verb (int (length paths)) 1 paths))) =
           int (length paths)"
    using last_progress [OF assms(2), of "emitted w" "int (length paths)" verb]
    by (simp add: emitted_append e progress_def)
qed

text \<open>
  Claim C3. On a non-empty list of paths whose items all succeed, each at the history the
  items before it leave, a batch function returns: its result lists the per-item outputs in
  the order of the inputs (the \<open>k\<close>-th \<open>AudioInfo\<close> is what \<open>probe_file\<close> returned for the
  \<open>k\<close>-th path and carries it; the \<open>k\<close>-th output path is the one of the \<open>k\<close>-th input), and the
  history it leaves is the one the specification asks for: per item its calls and then one
  progress event, the \<open>k\<close>-th with \<open>done = k\<close> and \<open>total\<close> the length of the list, so in
  increasing order of \<open>done\<close> and the last one with \<open>done = total\<close>.
\<close>

theorem batch_success_events:
  assumes "paths \<noteq> []"
  shows "((\<forall>k<length paths. \<exists>x. fst (probe_file E (paths ! k)
             (w @ spec_batch_history probe_calls ''Probed'' (int (length paths)) 1 (take k paths))) = Inr x) \<longrightarrow>
          (\<exists>infos. ProbeTab_fn E paths w =
              (Inr infos, w @ spec_batch_history probe_calls ''Probed'' (int (length paths)) 1 paths) \<and>
            length infos = length paths \<and>
            (\<forall>k<length paths. fst (probe_file E (paths ! k)
               (w @ spec_batch_history probe_calls ''Probed'' (int (length paths)) 1 (take k paths))) =
                 Inr (infos ! k)) \<and>
            map AudioInfo.path infos = paths)) \<and>
         ((\<forall>k<length paths. \<exists>x. fst (convert_file E (paths ! k) opts
             (w @ spec_batch_history (convert_calls opts) ''Converted'' (int (length paths)) 1 (take k paths))) = Inr x) \<longrightarrow>
          ConvertTab_fn E opts paths w =
            (Inr (map (out_path opts) paths),
             w @ spec_batch_history (convert_calls opts) ''Converted'' (int (length paths)) 1 paths)) \<and>
         emitted (w @ spec_batch_history probe_calls ''Probed'' (int (length paths)) 1 paths) =
           emitted w @ map (\<lambda>k. progress (1 + int k) (int (length paths)) ''Probed'' (paths ! k)) [0..<length paths] \<and>
         emitted (w @ spec_batch_history (convert_calls opts) ''Converted'' (int (length paths)) 1 paths) =
           emitted w @ map (\<lambda>k. progress (1 + int k) (int (length paths)) ''Converted'' (paths ! k)) [0..<length paths] \<and>
         map ndone (map (\<lambda>k. progress (1 + int k) (int (length paths)) verb (paths ! k)) [0..<length paths]) =
           map (\<lambda>k. 1 + int k) [0..<length paths] \<and>
         map total (map (\<lambda>k. progress (1 + int k) (int (length paths)) verb (paths ! k)) [0..<length paths]) =
           replicate (length paths) (int (length paths)) \<and>
         ndone (last (map (\<lambda>k. progress (1 + int k) (int (length paths)) verb (paths ! k)) [0..<length paths])) =
           int (length paths)"
proof -
  have l: "ndone (last (map (\<lambda>k. progress (1 + int k) (int (length paths)) verb (paths ! k)) [0..<length paths])) =
           int (length paths)"
    using last_progress [OF assms, of "[]" "int (length paths)" verb] by (simp add: progress_def)
  have m: "map ndone (map (\<lambda>k. progress (1 + int k) (int (length paths)) verb (paths ! k)) [0..<length paths]) =
           map (\<lambda>k. 1 + int k) [0..<length paths]"
    "map total (map (\<lambda>k. progress (1 + int k) (int (length paths)) verb (paths ! k)) [0..<length paths]) =
           replicate (length paths) (int (length paths))"
    by (simp_all add: progress_def o_def map_replicate_const)
  show ?thesis
    using ProbeTab_fn_all_succeed [of paths E w] ConvertTab_fn_all_succeed [of paths E opts w]
      spec_events(1) [of probe_calls paths w "''Probed''", OF emitted_probe_calls assms]
      spec_events(1) [of "convert_calls opts" paths w "''Converted''", OF emitted_convert_calls assms]
      l m
    by blast
qed

theorem batch_success_events_witness:
  "ProbeTab_fn (example_env (\<lambda>cmd. exits 0 []) example_doc) [Path ''a/foo.mp3'', Path ''b.wav''] [] =
     (Inr [\<lparr>path = PosixPath [] [''a'', ''foo.mp3''], duration_s = 25 / 2, sample_rate = Some 44100,
            channels = Some 2, codec = JStr ''pcm_s16le'', bit_rate = None\<rparr>,
           \<lparr>path = PosixPath [] [''b.wav''], duration_s = 25 / 2, sample_rate = Some 44100,
            channels = Some 2, codec = JStr ''pcm_s16le'', bit_rate = None\<rparr>],
      [Run [''ffprobe'', ''-v'', ''error'', ''-print_format'', ''json'', ''-show_format'',
            ''-show_streams'', ''a/foo.mp3''],
       Emit \<lparr>ndone = 1, total = 2, message = ''1/2 Probed foo.mp3''\<rparr>,
       Run [''ffprobe'', ''-v'', ''error'', ''-print_format'', ''json'', ''-show_format'',
            ''-show_streams'', ''b.wav''],
       Emit \<lparr>ndone = 2, total = 2, message = ''2/2 Probed b.wav''\<rparr>]) \<and>
   ConvertTab_fn (example_env (\<lambda>cmd. exits 0 []) example_doc) (example_opts 16 True)
     [Path ''a/foo.mp3'', Path ''b.flac''] [] =
     (Inr [PosixPath [] [''out'', ''foo.wav''], PosixPath [] [''out'', ''b.wav'']],
      [Mkdir (PosixPath [] [''out'']),
       Run [''ffmpeg'', ''-n'', ''-i'', ''a/foo.mp3'', ''-vn'', ''-ac'', ''1'', ''-ar'', ''48000'',
            ''-c:a'', ''pcm_s16le'', ''out/foo.wav''],
       Emit \<lparr>ndone = 1, total = 2, message = ''1/2 Converted foo.mp3''\<rparr>,
       Mkdir (PosixPath [] [''out'']),
       Run [''ffmpeg'', ''-n'', ''-i'', ''b.flac'', ''-vn'', ''-ac'', ''1'', ''-ar'', ''48000'',
            ''-c:a'', ''pcm_s16le'', ''out/b.wav''],
       Emit \<lparr>ndone = 2, total = 2, message = ''2/2 Converted b.flac''\<rparr>])"
proof -
  let ?E = "example_env (\<lambda>cmd. exits 0 []) example_doc"
  let ?ps = "[Path ''a/foo.mp3'', Path ''b.wav'']"
  let ?qs = "[Path ''a/foo.mp3'', Path ''b.flac'']"
  have ne: "?ps \<noteq> []" "?qs \<noteq> []" by simp_all
  have pf: "fst (probe_file ?E p h) = Inr \<lparr>path = p, duration_s = 25 / 2, sample_rate = Some 44100,
            channels = Some 2, codec = JStr ''pcm_s16le'', bit_rate = None\<rparr>" for p h
    by (simp add: probe_file_def probe_run_def probe_data_def fmt_number_def stream_is_audio_def
        stream_int_def dict_get_def example_doc_def example_env_def exits_def)
  have okp: "\<forall>k<length ?ps. \<exists>x. fst (probe_file ?E (?ps ! k)
      ([] @ spec_batch_history probe_calls ''Probed'' (int (length ?ps)) 1 (take k ?ps))) = Inr x"
    by (simp add: pf)
  have cf: "fst (convert_file ?E p (example_opts 16 True) h) = Inr (out_path (example_opts 16 True) p)" for p h
    by (simp add: convert_file_cases example_env_def exits_def cmd_codec_def out_ext_def
        example_opts_def lower_def lower_char_def pcm_codec_cases split: sum.splits)
  have okc: "\<forall>k<length ?qs. \<exists>x. fst (convert_file ?E (?qs ! k) (example_opts 16 True)
      ([] @ spec_batch_history (convert_calls (example_opts 16 True)) ''Converted'' (int (length ?qs)) 1 (take k ?qs))) = Inr x"
    by (simp add: cf)
  from batch_success_events [OF ne(1), of ?E "[]", THEN conjunct1, THEN mp, OF okp]
  obtain infos where i: "ProbeTab_fn ?E ?ps [] =
      (Inr infos, [] @ spec_batch_history probe_calls ''Probed'' (int (length ?ps)) 1 ?ps)"
    "length infos = length ?ps"
    "\<forall>k<length ?ps. fst (probe_file ?E (?ps ! k)
       ([] @ spec_batch_history probe_calls ''Probed'' (int (length ?ps)) 1 (take k ?ps))) = Inr (infos ! k)"
    by blast
  have "infos ! 0 = \<lparr>path = Path ''a/foo.mp3'', duration_s = 25 / 2, sample_rate = Some 44100,
            channels = Some 2, codec = JStr ''pcm_s16le'', bit_rate = None\<rparr>"
    using i(3) [THEN spec, of 0] by (simp add: pf)
  moreover have "infos ! 1 = \<lparr>path = Path ''b.wav'', duration_s = 25 / 2, sample_rate = Some 44100,
            channels = Some 2, codec = JStr ''pcm_s16le'', bit_rate = None\<rparr>"
    using i(3) [THEN spec, of 1] by (simp add: pf)
  ultimately have "infos = [\<lparr>path = Path ''a/foo.mp3'', duration_s = 25 / 2, sample_rate = Some 44100,
            channels = Some 2, codec = JStr ''pcm_s16le'', bit_rate = None\<rparr>,
           \<lparr>path = Path ''b.wav'', duration_s = 25 / 2, sample_rate = Some 44100,
            channels = Some 2, codec = JStr ''pcm_s16le'', bit_rate = None\<rparr>]"
    using i(2) by (cases infos; cases "tl infos") auto
  with i(1) have 1: "ProbeTab_fn ?E ?ps [] =
     (Inr [\<lparr>path = PosixPath [] [''a'', ''foo.mp3''], duration_s = 25 / 2, sample_rate = Some 44100,
            channels = Some 2, codec = JStr ''pcm_s16le'', bit_rate = None\<rparr>,
           \<lparr>path = PosixPath [] [''b.wav''], duration_s = 25 / 2, sample_rate = Some 44100,
            channels = Some 2, codec = JStr ''pcm_s16le'', bit_rate = None\<rparr>],
      [Run [''ffprobe'', ''-v'', ''error'', ''-print_format'', ''json'', ''-show_format'',
            ''-show_streams'', ''a/foo.mp3''],
       Emit \<lparr>ndone = 1, total = 2, message = ''1/2 Probed foo.mp3''\<rparr>,
       Run [''ffprobe'', ''-v'', ''error'', ''-print_format'', ''json'', ''-show_format'',
            ''-show_streams'', ''b.wav''],
       Emit \<lparr>ndone = 2, total = 2, message = ''2/2 Probed b.wav''\<rparr>])"
    by (simp add: probe_calls_def probe_cmd_def progress_def example_defs)
  from batch_success_events [OF ne(2), of ?E "[]" "example_opts 16 True",
      THEN conjunct2, THEN conjunct1, THEN mp, OF okc]
  have 2: "ConvertTab_fn ?E (example_opts 16 True) ?qs [] =
     (Inr [PosixPath [] [''out'', ''foo.wav''], PosixPath [] [''out'', ''b.wav'']],
      [Mkdir (PosixPath [] [''out'']),
       Run [''ffmpeg'', ''-n'', ''-i'', ''a/foo.mp3'', ''-vn'', ''-ac'', ''1'', ''-ar'', ''48000'',
            ''-c:a'', ''pcm_s16le'', ''out/foo.wav''],
       Emit \<lparr>ndone = 1, total = 2, message = ''1/2 Converted foo.mp3''\<rparr>,
       Mkdir (PosixPath [] [''out'']),
       Run [''ffmpeg'', ''-n'', ''-i'', ''b.flac'', ''-vn'', ''-ac'', ''1'', ''-ar'', ''48000'',
            ''-c:a'', ''pcm_s16le'', ''out/b.wav''],
       Emit \<lparr>ndone = 2, total = 2, message = ''2/2 Converted b.flac''\<rparr>])"
    by (simp add: convert_calls_def progress_def example_defs)
  from 1 2 show ?thesis by simp
qed

lemma convert_file_tool_failure:
  assumes "mkdir E w (out_dir opts) = None" and "cmd_codec opts p = Inr args"
    and "subprocess_run E (w @ [Mkdir (out_dir opts)])
           (cmd_input opts p @ args @ [str_path (out_path opts p)]) = Inr pr"
    and "returncode pr \<noteq> 0"
  shows "convert_file E p opts w =
    (Inl (FFmpegError (if strip (stderr pr) \<noteq> [] then strip (stderr pr) else ''ffmpeg failed'')),
     w @ [Mkdir (out_dir opts), Run (cmd_input opts p @ args @ [str_path (out_path opts p)])])"
  using assms by (simp add: convert_file_cases)

lemma ProbeTab_fn_fails_at:
  assumes "\<forall>k<length pre. \<exists>x. fst (probe_file E (pre ! k)
      (w @ spec_batch_history probe_calls ''Probed'' (int (length (pre @ p # post))) 1 (take k pre))) = Inr x"
    and "probe_file E p (w @ spec_batch_history probe_calls ''Probed'' (int (length (pre @ p # post))) 1 pre) =
           (Inl e, w2)"
  shows "ProbeTab_fn E (pre @ p # post) w = (Inl e, w2)"
proof -
  have calls: "\<forall>p h x. fst (probe_file E p h) = Inr x \<longrightarrow> snd (probe_file E p h) = h @ probe_calls p"
    by (simp add: probe_file_calls)
  from batch_fails_at [where op = "probe_file E" and out = "[]" and post = post, OF calls assms]
  show ?thesis by (simp add: ProbeTab_fn_def ProbeTab_fn_loop_batch)
qed

lemma ConvertTab_fn_fails_at:
  assumes "\<forall>k<length pre. \<exists>x. fst (convert_file E (pre ! k) opts
      (w @ spec_batch_history (convert_calls opts) ''Converted'' (int (length (pre @ p # post))) 1 (take k pre))) = Inr x"
    and "convert_file E p opts
           (w @ spec_batch_history (convert_calls opts) ''Converted'' (int (length (pre @ p # post))) 1 pre) =
           (Inl e, w2)"
  shows "ConvertTab_fn E opts (pre @ p # post) w = (Inl e, w2)"
proof -
  have calls: "\<forall>p h x. fst (convert_file E p opts h) = Inr x \<longrightarrow>
      snd (convert_file E p opts h) = h @ convert_calls opts p"
    by (simp add: convert_file_calls)
  from batch_fails_at [where op = "\<lambda>p. convert_file E p opts" and out = "[]" and post = post, OF calls assms]
  show ?thesis by (simp add: ConvertTab_fn_def ConvertTab_fn_loop_batch)
qed

text \<open>
  Claim C2. When the items before \<open>p\<close> succeed, each at the history the items before it
  leave, and the operation on \<open>p\<close> fails there, the batch function ends with that failure and
  with the history the failing operation left: no item after \<open>p\<close> is run and no progress
  event is emitted past the one of the last item before \<open>p\<close>. When the failure is a non-zero
  exit code of the tool, the exception is an \<open>FFprobeError\<close> or \<open>FFmpegError\<close> whose message is
  the tool's standard error, stripped (or the fallback when that is empty), and the tool run
  is the last call made.
\<close>

theorem batch_stops_at_failure:
  "((\<forall>k<length pre. \<exists>x. fst (probe_file E (pre ! k)
        (w @ spec_batch_history probe_calls ''Probed'' (int (length (pre @ p # post))) 1 (take k pre))) = Inr x) \<and>
    probe_file E p (w @ spec_batch_history probe_calls ''Probed'' (int (length (pre @ p # post))) 1 pre) =
      (Inl e, w2) \<longrightarrow>
      ProbeTab_fn E (pre @ p # post) w = (Inl e, w2)) \<and>
   ((\<forall>k<length pre. \<exists>x. fst (probe_file E (pre ! k)
        (w @ spec_batch_history probe_calls ''Probed'' (int (length (pre @ p # post))) 1 (take k pre))) = Inr x) \<and>
    subprocess_run E (w @ spec_batch_history probe_calls ''Probed'' (int (length (pre @ p # post))) 1 pre)
      (probe_cmd p) = Inr pr \<and>
    returncode pr \<noteq> 0 \<longrightarrow>
      ProbeTab_fn E (pre @ p # post) w =
        (Inl (FFprobeError (if strip (stderr pr) \<noteq> [] then strip (stderr pr) else ''ffprobe failed'')),
         w @ spec_batch_history probe_calls ''Probed'' (int (length (pre @ p # post))) 1 pre @
         [Run (probe_cmd p)])) \<and>
   ((\<forall>k<length pre. \<exists>x. fst (convert_file E (pre ! k) opts
        (w @ spec_batch_history (convert_calls opts) ''Converted'' (int (length (pre @ p # post))) 1 (take k pre))) = Inr x) \<and>
    convert_file E p opts
      (w @ spec_batch_history (convert_calls opts) ''Converted'' (int (length (pre @ p # post))) 1 pre) =
      (Inl e, w2) \<longrightarrow>
      ConvertTab_fn E opts (pre @ p # post) w = (Inl e, w2)) \<and>
   ((\<forall>k<length pre. \<exists>x. fst (convert_file E (pre ! k) opts
        (w @ spec_batch_history (convert_calls opts) ''Converted'' (int (length (pre @ p # post))) 1 (take k pre))) = Inr x) \<and>
    mkdir E (w @ spec_batch_history (convert_calls opts) ''Converted'' (int (length (pre @ p # post))) 1 pre)
      (out_dir opts) = None \<and>
    cmd_codec opts p = Inr args \<and>
    subprocess_run E
      (w @ spec_batch_history (convert_calls opts) ''Converted'' (int (length (pre @ p # post))) 1 pre @
       [Mkdir (out_dir opts)])
      (cmd_input opts p @ args @ [str_path (out_path opts p)]) = Inr pr \<and>
    returncode pr \<noteq> 0 \<longrightarrow>
      ConvertTab_fn E opts (pre @ p # post) w =
        (Inl (FFmpegError (if strip (stderr pr) \<noteq> [] then strip (stderr pr) else ''ffmpeg failed'')),
         w @ spec_batch_history (convert_calls opts) ''Converted'' (int (length (pre @ p # post))) 1 pre @
         [Mkdir (out_dir opts), Run (cmd_input opts p @ args @ [str_path (out_path opts p)])])) \<and>
   emitted (w @ spec_batch_history probe_calls ''Probed'' (int (length (pre @ p # post))) 1 pre @
            [Run (probe_cmd p)]) =
     emitted w @ map (\<lambda>k. progress (1 + int k) (int (length (pre @ p # post))) ''Probed'' (pre ! k)) [0..<length pre] \<and>
   emitted (w @ spec_batch_history (convert_calls opts) ''Converted'' (int (length (pre @ p # post))) 1 pre @
            [Mkdir (out_dir opts), Run (cmd_input opts p @ args @ [str_path (out_path opts p)])]) =
     emitted w @ map (\<lambda>k. progress (1 + int k) (int (length (pre @ p # post))) ''Converted'' (pre ! k)) [0..<length pre]"
proof -
  let ?n = "int (length (pre @ p # post))"
  let ?Hp = "spec_batch_history probe_calls ''Probed'' ?n 1"
  let ?Hc = "spec_batch_history (convert_calls opts) ''Converted'' ?n 1"
  let ?okp = "\<forall>k<length pre. \<exists>x. fst (probe_file E (pre ! k) (w @ ?Hp (take k pre))) = Inr x"
  let ?okc = "\<forall>k<length pre. \<exists>x. fst (convert_file E (pre ! k) opts (w @ ?Hc (take k pre))) = Inr x"
  have a: "ProbeTab_fn E (pre @ p # post) w = (Inl e, w2)"
    if "?okp" "probe_file E p (w @ ?Hp pre) = (Inl e, w2)"
    using ProbeTab_fn_fails_at [OF that] .
  have b: "ProbeTab_fn E (pre @ p # post) w =
        (Inl (FFprobeError (if strip (stderr pr) \<noteq> [] then strip (stderr pr) else ''ffprobe failed'')),
         w @ ?Hp pre @ [Run (probe_cmd p)])"
    if h: "?okp" "subprocess_run E (w @ ?Hp pre) (probe_cmd p) = Inr pr" "returncode pr \<noteq> 0"
    using ProbeTab_fn_fails_at [OF h(1)] probe_file_tool_failure [OF h(2,3)] by simp
  have c: "ConvertTab_fn E opts (pre @ p # post) w = (Inl e, w2)"
    if "?okc" "convert_file E p opts (w @ ?Hc pre) = (Inl e, w2)"
    using ConvertTab_fn_fails_at [OF that] .
  have d: "ConvertTab_fn E opts (pre @ p # post) w =
        (Inl (FFmpegError (if strip (stderr pr) \<noteq> [] then strip (stderr pr) else ''ffmpeg failed'')),
         w @ ?Hc pre @ [Mkdir (out_dir opts), Run (cmd_input opts p @ args @ [str_path (out_path opts p)])])"
    if h: "?okc" "mkdir E (w @ ?Hc pre) (out_dir opts) = None" "cmd_codec opts p = Inr args"
      "subprocess_run E (w @ ?Hc pre @ [Mkdir (out_dir opts)])
         (cmd_input opts p @ args @ [str_path (out_path opts p)]) = Inr pr"
      "returncode pr \<noteq> 0"
    using ConvertTab_fn_fails_at [OF h(1)] convert_file_tool_failure [OF h(2,3) _ h(5)] h(4) by simp
  have e1: "emitted (w @ ?Hp pre @ [Run (probe_cmd p)]) =
     emitted w @ map (\<lambda>k. progress (1 + int k) ?n ''Probed'' (pre ! k)) [0..<length pre]"
    by (simp add: emitted_append emitted_spec_batch_history [OF emitted_probe_calls])
  have e2: "emitted (w @ ?Hc pre @ [Mkdir (out_dir opts), Run (cmd_input opts p @ args @ [str_path (out_path opts p)])]) =
     emitted w @ map (\<lambda>k. progress (1 + int k) ?n ''Converted'' (pre ! k)) [0..<length pre]"
    by (simp add: emitted_append emitted_spec_batch_history [OF emitted_convert_calls])
  from a b c d e1 e2 show ?thesis by blast
qed

theorem batch_stops_at_failure_witness:
  "ProbeTab_fn (example_env (\<lambda>cmd. if last cmd = ''b.wav'' then exits 1 '' boom '' else exits 0 []) example_doc)
     [Path ''a.wav'', Path ''b.wav'', Path ''c.wav''] [] =
     (Inl (FFprobeError ''boom''),
      [Run [''ffprobe'', ''-v'', ''error'', ''-print_format'', ''json'', ''-show_format'',
            ''-show_streams'', ''a.wav''],
       Emit \<lparr>ndone = 1, total = 3, message = ''1/3 Probed a.wav''\<rparr>,
       Run [''ffprobe'', ''-v'', ''error'', ''-print_format'', ''json'', ''-show_format'',
            ''-show_streams'', ''b.wav'']]) \<and>
   ConvertTab_fn (example_env (\<lambda>cmd. if last cmd = ''out/b.wav'' then exits 1 '' boom '' else exits 0 []) example_doc)
     (example_opts 16 True) [Path ''a.mp3'', Path ''b.mp3'', Path ''c.mp3''] [] =
     (Inl (FFmpegError ''boom''),
      [Mkdir (PosixPath [] [''out'']),
       Run [''ffmpeg'', ''-n'', ''-i'', ''a.mp3'', ''-vn'', ''-ac'', ''1'', ''-ar'', ''48000'',
            ''-c:a'', ''pcm_s16le'', ''out/a.wav''],
       Emit \<lparr>ndone = 1, total = 3, message = ''1/3 Converted a.mp3''\<rparr>,
       Mkdir (PosixPath [] [''out'']),
       Run [''ffmpeg'', ''-n'', ''-i'', ''b.mp3'', ''-vn'', ''-ac'', ''1'', ''-ar'', ''48000'',
            ''-c:a'', ''pcm_s16le'', ''out/b.wav'']])"
proof -
  let ?E = "example_env (\<lambda>cmd. if last cmd = ''b.wav'' then exits 1 '' boom '' else exits 0 []) example_doc"
  let ?F = "example_env (\<lambda>cmd. if last cmd = ''out/b.wav'' then exits 1 '' boom '' else exits 0 []) example_doc"
  let ?o = "example_opts 16 True"
  let ?Hp = "spec_batch_history probe_calls ''Probed'' (int (length ([Path ''a.wav''] @ Path ''b.wav'' # [Path ''c.wav'']))) 1"
  let ?Hc = "spec_batch_history (convert_calls ?o) ''Converted'' (int (length ([Path ''a.mp3''] @ Path ''b.mp3'' # [Path ''c.mp3'']))) 1"
  have okp: "\<forall>k<length [Path ''a.wav'']. \<exists>x. fst (probe_file ?E ([Path ''a.wav''] ! k)
      ([] @ ?Hp (take k [Path ''a.wav'']))) = Inr x"
    by (simp add: probe_example_defs example_defs)
  have tp: "subprocess_run ?E ([] @ ?Hp [Path ''a.wav'']) (probe_cmd (Path ''b.wav'')) = Inr (exits 1 '' boom '')"
    "returncode (exits 1 '' boom '') \<noteq> 0"
    by (simp_all add: probe_example_defs example_defs)
  note t = batch_stops_at_failure [where pre = "[Path ''a.wav'']" and w = "[]" and p = "Path ''b.wav''"
      and post = "[Path ''c.wav'']" and pr = "exits 1 '' boom ''" and E = ?E]
  from t [THEN conjunct2, THEN conjunct1] okp tp
  have "ProbeTab_fn ?E ([Path ''a.wav''] @ Path ''b.wav'' # [Path ''c.wav'']) [] =
        (Inl (FFprobeError (if strip (stderr (exits 1 '' boom '')) \<noteq> [] then strip (stderr (exits 1 '' boom '')) else ''ffprobe failed'')),
         [] @ ?Hp [Path ''a.wav''] @ [Run (probe_cmd (Path ''b.wav''))])"
    by blast
  then have 1: "ProbeTab_fn ?E [Path ''a.wav'', Path ''b.wav'', Path ''c.wav''] [] =
     (Inl (FFprobeError ''boom''),
      [Run [''ffprobe'', ''-v'', ''error'', ''-print_format'', ''json'', ''-show_format'',
            ''-show_streams'', ''a.wav''],
       Emit \<lparr>ndone = 1, total = 3, message = ''1/3 Probed a.wav''\<rparr>,
       Run [''ffprobe'', ''-v'', ''error'', ''-print_format'', ''json'', ''-show_format'',
            ''-show_streams'', ''b.wav'']])"
    by (simp add: probe_calls_def probe_cmd_def progress_def example_defs)
  have cf: "fst (convert_file ?F (Path ''a.mp3'') ?o h) = Inr (out_path ?o (Path ''a.mp3''))" for h
    by (simp add: convert_file_cases example_defs)
  have okc: "\<forall>k<length [Path ''a.mp3'']. \<exists>x. fst (convert_file ?F ([Path ''a.mp3''] ! k) ?o
      ([] @ ?Hc (take k [Path ''a.mp3'']))) = Inr x"
    by (simp add: cf)
  have tc: "mkdir ?F ([] @ ?Hc [Path ''a.mp3'']) (out_dir ?o) = None"
    "cmd_codec ?o (Path ''b.mp3'') = Inr [''-c:a'', ''pcm_s16le'']"
    "subprocess_run ?F ([] @ ?Hc [Path ''a.mp3''] @ [Mkdir (out_dir ?o)])
      (cmd_input ?o (Path ''b.mp3'') @ [''-c:a'', ''pcm_s16le''] @ [str_path (out_path ?o (Path ''b.mp3''))]) =
      Inr (exits 1 '' boom '')"
    by (simp_all add: example_defs)
  note u = batch_stops_at_failure [where pre = "[Path ''a.mp3'']" and w = "[]" and p = "Path ''b.mp3''"
      and post = "[Path ''c.mp3'']" and pr = "exits 1 '' boom ''" and E = ?F and opts = ?o
      and args = "[''-c:a'', ''pcm_s16le'']"]
  from u [THEN conjunct2, THEN conjunct2, THEN conjunct2, THEN conjunct1] okc tc tp(2)
  have "ConvertTab_fn ?F ?o ([Path ''a.mp3''] @ Path ''b.mp3'' # [Path ''c.mp3'']) [] =
        (Inl (FFmpegError (if strip (stderr (exits 1 '' boom '')) \<noteq> [] then strip (stderr (exits 1 '' boom '')) else ''ffmpeg failed'')),
         [] @ ?Hc [Path ''a.mp3''] @
         [Mkdir (out_dir ?o), Run (cmd_input ?o (Path ''b.mp3'') @ [''-c:a'', ''pcm_s16le''] @ [str_path (out_path ?o (Path ''b.mp3''))])])"
    by blast
  then have 2: "ConvertTab_fn ?F ?o [Path ''a.mp3'', Path ''b.mp3'', Path ''c.mp3''] [] =
     (Inl (FFmpegError ''boom''),
      [Mkdir (PosixPath [] [''out'']),
       Run [''ffmpeg'', ''-n'', ''-i'', ''a.mp3'', ''-vn'', ''-ac'', ''1'', ''-ar'', ''48000'',
            ''-c:a'', ''pcm_s16le'', ''out/a.wav''],
       Emit \<lparr>ndone = 1, total = 3, message = ''1/3 Converted a.mp3''\<rparr>,
       Mkdir (PosixPath [] [''out'']),
       Run [''ffmpeg'', ''-n'', ''-i'', ''b.mp3'', ''-vn'', ''-ac'', ''1'', ''-ar'', ''48000'',
            ''-c:a'', ''pcm_s16le'', ''out/b.wav'']])"
    by (simp add: convert_calls_def progress_def example_defs)
  from 1 2 show ?thesis by simp
qed

section \<open>\<open>probe_file\<close>\<close>

lemma probe_file_decoded:
  assumes "subprocess_run E w (probe_cmd p) = Inr pr" and "returncode pr = 0"
    and "json_loads E (stdout pr) = Inr data"
  shows "probe_file E p w = (probe_data E p data, w @ [Run (probe_cmd p)])"
  using assms by (simp add: probe_file_def probe_run_def)

lemma fmt_number_dict:
  "fmt_number conv (JObj f) k = Inr (case map_of f k of None \<Rightarrow> None | Some v \<Rightarrow> conv v)"
  by (auto simp: fmt_number_def map_of_eq_None_iff [symmetric] split: option.splits)

lemma scan_streams_dicts:
  "\<forall>s\<in>set ss. \<exists>kv. s = JObj kv \<Longrightarrow> \<exists>r. scan_streams E ss = Inr r"
  by (induction ss) auto

lemma scan_streams_none:
  "\<forall>s\<in>set ss. \<exists>kv. s = JObj kv \<and> \<not> stream_is_audio kv \<Longrightarrow> scan_streams E ss = Inr (None, None, JNull)"
  by (induction ss) auto

lemma scan_streams_first:
  assumes "\<forall>x\<in>set pre. \<exists>kv. x = JObj kv \<and> \<not> stream_is_audio kv" and "stream_is_audio s"
  shows "scan_streams E (pre @ JObj s # post) =
    Inr (stream_int E s ''sample_rate'', stream_int E s ''channels'', dict_get s ''codec_name'')"
  using assms by (induction pre) auto

lemma probe_data_no_format:
  "map_of items ''format'' = None \<Longrightarrow>
   probe_data E p (JObj items) = Inl (FFprobeError ''Could not determine duration'')"
  by (simp add: probe_data_def dict_get_def fmt_number_dict)

lemma probe_data_format:
  assumes "map_of items ''format'' = Some (JObj f)"
  shows "probe_data E p (JObj items) =
     (case (case map_of f ''duration'' of None \<Rightarrow> None | Some v \<Rightarrow> py_float E v) of
        None \<Rightarrow> Inl (FFprobeError ''Could not determine duration'')
      | Some duration \<Rightarrow>
          (case py_iter (case map_of items ''streams'' of None \<Rightarrow> JArr [] | Some v \<Rightarrow> v) of
             Inl e \<Rightarrow> Inl e
           | Inr ss \<Rightarrow>
               (case scan_streams E ss of
                  Inl e \<Rightarrow> Inl e
                | Inr (sr, ch, cd) \<Rightarrow>
                    Inr \<lparr>path = p, duration_s = duration, sample_rate = sr, channels = ch, codec = cd,
                         bit_rate = (case map_of f ''bit_rate'' of None \<Rightarrow> None | Some v \<Rightarrow> py_int E v)\<rparr>)))"
proof (cases "f = []")
  case True
  with assms show ?thesis by (simp add: probe_data_def dict_get_def fmt_number_dict)
next
  case False
  with assms show ?thesis
    by (simp add: probe_data_def dict_get_def fmt_number_dict split: option.split sum.split)
qed

text \<open>
  Claim C6. For a tool output that decodes to a dict whose \<open>format\<close> entry is missing or is
  a dict: when \<open>format\<close> or its \<open>duration\<close> is missing, or \<open>float\<close> raises on the duration,
  \<open>probe_file\<close> fails with the \<open>FFprobeError\<close> on the duration, whatever else the output holds;
  when \<open>float\<close> accepts the duration, and the streams are missing or a list of dicts,
  \<open>probe_file\<close> returns a record with that duration, whatever other fields are missing.
\<close>

theorem probe_duration_required:
  assumes "subprocess_run E w (probe_cmd p) = Inr pr" and "returncode pr = 0"
    and "json_loads E (stdout pr) = Inr (JObj items)"
  shows "(map_of items ''format'' = None \<longrightarrow>
            probe_file E p w =
              (Inl (FFprobeError ''Could not determine duration''), w @ [Run (probe_cmd p)])) \<and>
         (map_of items ''format'' = Some (JObj f) \<and> map_of f ''duration'' = None \<longrightarrow>
            probe_file E p w =
              (Inl (FFprobeError ''Could not determine duration''), w @ [Run (probe_cmd p)])) \<and>
         (map_of items ''format'' = Some (JObj f) \<and> map_of f ''duration'' = Some v \<and>
          py_float E v = None \<longrightarrow>
            probe_file E p w =
              (Inl (FFprobeError ''Could not determine duration''), w @ [Run (probe_cmd p)])) \<and>
         (map_of items ''format'' = Some (JObj f) \<and> map_of f ''duration'' = Some v \<and>
          py_float E v = Some d \<and>
          (map_of items ''streams'' = None \<or>
           (\<exists>ss. map_of items ''streams'' = Some (JArr ss) \<and> (\<forall>s\<in>set ss. \<exists>kv. s = JObj kv))) \<longrightarrow>
            (\<exists>info. probe_file E p w = (Inr info, w @ [Run (probe_cmd p)]) \<and> duration_s info = d))"
proof -
  note pf = probe_file_decoded [OF assms]
  have a: "map_of items ''format'' = None \<Longrightarrow>
      probe_file E p w = (Inl (FFprobeError ''Could not determine duration''), w @ [Run (probe_cmd p)])"
    by (simp add: pf probe_data_no_format)
  have b: "map_of items ''format'' = Some (JObj f) \<Longrightarrow> map_of f ''duration'' = None \<Longrightarrow>
      probe_file E p w = (Inl (FFprobeError ''Could not determine duration''), w @ [Run (probe_cmd p)])"
    by (simp add: pf probe_data_format)
  have c: "map_of items ''format'' = Some (JObj f) \<Longrightarrow> map_of f ''duration'' = Some v \<Longrightarrow>
      py_float E v = None \<Longrightarrow>
      probe_file E p w = (Inl (FFprobeError ''Could not determine duration''), w @ [Run (probe_cmd p)])"
    by (simp add: pf probe_data_format)
  have d: "\<exists>info. probe_file E p w = (Inr info, w @ [Run (probe_cmd p)]) \<and> duration_s info = d"
    if h: "map_of items ''format'' = Some (JObj f)" "map_of f ''duration'' = Some v"
      "py_float E v = Some d"
      "map_of items ''streams'' = None \<or>
       (\<exists>ss. map_of items ''streams'' = Some (JArr ss) \<and> (\<forall>s\<in>set ss. \<exists>kv. s = JObj kv))"
  proof -
    from h(4) obtain ss where ss: "py_iter (case map_of items ''streams'' of None \<Rightarrow> JArr [] | Some v \<Rightarrow> v) = Inr ss"
      and dicts: "\<forall>s\<in>set ss. \<exists>kv. s = JObj kv"
      by auto
    from scan_streams_dicts [OF dicts, of E] obtain sr ch cd where "scan_streams E ss = Inr (sr, ch, cd)"
      by (metis prod_cases3)
    with ss h(1-3) show ?thesis by (simp add: pf probe_data_format)
  qed
  from a b c d show ?thesis by blast
qed

theorem probe_duration_required_witness:
  "probe_file (example_env (\<lambda>cmd. exits 0 [])
       (JObj [(''streams'', JArr [JObj [(''codec_type'', JStr ''audio''), (''sample_rate'', JStr ''44100'')]])]))
     (Path ''a.wav'') [] =
     (Inl (FFprobeError ''Could not determine duration''), [Run (probe_cmd (Path ''a.wav''))]) \<and>
   probe_file (example_env (\<lambda>cmd. exits 0 [])
       (JObj [(''format'', JObj [(''duration'', JStr ''N/A''), (''bit_rate'', JStr ''2'')])]))
     (Path ''a.wav'') [] =
     (Inl (FFprobeError ''Could not determine duration''), [Run (probe_cmd (Path ''a.wav''))]) \<and>
   probe_file (example_env (\<lambda>cmd. exits 0 []) (JObj [(''format'', JObj [(''duration'', JStr ''12.5'')])]))
     (Path ''a.wav'') [] =
     (Inr \<lparr>path = PosixPath [] [''a.wav''], duration_s = 25 / 2, sample_rate = None, channels = None,
           codec = JNull, bit_rate = None\<rparr>, [Run (probe_cmd (Path ''a.wav''))])"
proof -
  let ?d1 = "[(''streams'', JArr [JObj [(''codec_type'', JStr ''audio''), (''sample_rate'', JStr ''44100'')]])] :: (string \<times> rat json) list"
  let ?f2 = "[(''duration'', JStr ''N/A''), (''bit_rate'', JStr ''2'')] :: (string \<times> rat json) list"
  let ?f3 = "[(''duration'', JStr ''12.5'')] :: (string \<times> rat json) list"
  let ?E = "\<lambda>doc. example_env (\<lambda>cmd. exits 0 []) doc"
  have t: "subprocess_run (?E doc) [] (probe_cmd (Path ''a.wav'')) = Inr (exits 0 [])"
    "returncode (exits 0 []) = 0" "json_loads (?E doc) (stdout (exits 0 [])) = Inr doc" for doc
    by (simp_all add: example_env_def exits_def)
  have 1: "probe_file (?E (JObj ?d1)) (Path ''a.wav'') [] =
      (Inl (FFprobeError ''Could not determine duration''), [] @ [Run (probe_cmd (Path ''a.wav''))])"
    using probe_duration_required [OF t, of ?d1] by simp
  have 2: "probe_file (?E (JObj [(''format'', JObj ?f2)])) (Path ''a.wav'') [] =
      (Inl (FFprobeError ''Could not determine duration''), [] @ [Run (probe_cmd (Path ''a.wav''))])"
    using probe_duration_required [OF t, of "[(''format'', JObj ?f2)]" ?f2 "JStr ''N/A''"]
    by (simp add: example_env_def)
  have "\<exists>info. probe_file (?E (JObj [(''format'', JObj ?f3)])) (Path ''a.wav'') [] =
      (Inr info, [] @ [Run (probe_cmd (Path ''a.wav''))]) \<and> duration_s info = 25 / 2"
    using probe_duration_required [OF t, of "[(''format'', JObj ?f3)]" ?f3 "JStr ''12.5''" "25 / 2"]
    by (simp add: example_env_def)
  moreover have "probe_file (?E (JObj [(''format'', JObj ?f3)])) (Path ''a.wav'') [] =
     (Inr \<lparr>path = PosixPath [] [''a.wav''], duration_s = 25 / 2, sample_rate = None, channels = None,
           codec = JNull, bit_rate = None\<rparr>, [Run (probe_cmd (Path ''a.wav''))])"
    by (simp add: probe_example_defs example_defs)
  ultimately show ?thesis using 1 2 by simp
qed

text \<open>
  Claim C7. For a tool output with a duration \<open>float\<close> accepts: when the streams up to
  the first one with \<open>codec_type\<close> \<open>audio\<close> are dicts, the sample rate, the channels and the
  codec of the record are read off that stream alone, whatever streams come before and after
  it; a missing field, or one \<open>int\<close> raises on, is \<open>None\<close>, and the probe does not fail. When no
  stream is an audio stream, the three fields are \<open>None\<close> and the duration is the format's.
\<close>

theorem probe_first_audio_stream:
  assumes "subprocess_run E w (probe_cmd p) = Inr pr" and "returncode pr = 0"
    and "json_loads E (stdout pr) = Inr (JObj items)"
    and "map_of items ''format'' = Some (JObj f)" and "map_of f ''duration'' = Some v"
    and "py_float E v = Some d"
    and "map_of items ''streams'' = Some (JArr ss) \<or> map_of items ''streams'' = None \<and> ss = []"
  shows "(ss = pre @ JObj s # post \<and> (\<forall>x\<in>set pre. \<exists>kv. x = JObj kv \<and> \<not> stream_is_audio kv) \<and>
          stream_is_audio s \<longrightarrow>
            probe_file E p w =
              (Inr \<lparr>path = p, duration_s = d,
                    sample_rate = (case map_of s ''sample_rate'' of None \<Rightarrow> None | Some x \<Rightarrow> py_int E x),
                    channels = (case map_of s ''channels'' of None \<Rightarrow> None | Some x \<Rightarrow> py_int E x),
                    codec = (case map_of s ''codec_name'' of None \<Rightarrow> JNull | Some c \<Rightarrow> c),
                    bit_rate = (case map_of f ''bit_rate'' of None \<Rightarrow> None | Some x \<Rightarrow> py_int E x)\<rparr>,
               w @ [Run (probe_cmd p)])) \<and>
         ((\<forall>x\<in>set ss. \<exists>kv. x = JObj kv \<and> \<not> stream_is_audio kv) \<longrightarrow>
            probe_file E p w =
              (Inr \<lparr>path = p, duration_s = d, sample_rate = None, channels = None, codec = JNull,
                    bit_rate = (case map_of f ''bit_rate'' of None \<Rightarrow> None | Some x \<Rightarrow> py_int E x)\<rparr>,
               w @ [Run (probe_cmd p)]))"
proof -
  note pf = probe_file_decoded [OF assms(1-3)]
  from assms(7) have it: "py_iter (case map_of items ''streams'' of None \<Rightarrow> JArr [] | Some v \<Rightarrow> v) = Inr ss"
    by auto
  have a: "probe_file E p w =
              (Inr \<lparr>path = p, duration_s = d,
                    sample_rate = (case map_of s ''sample_rate'' of None \<Rightarrow> None | Some x \<Rightarrow> py_int E x),
                    channels = (case map_of s ''channels'' of None \<Rightarrow> None | Some x \<Rightarrow> py_int E x),
                    codec = (case map_of s ''codec_name'' of None \<Rightarrow> JNull | Some c \<Rightarrow> c),
                    bit_rate = (case map_of f ''bit_rate'' of None \<Rightarrow> None | Some x \<Rightarrow> py_int E x)\<rparr>,
               w @ [Run (probe_cmd p)])"
    if h: "ss = pre @ JObj s # post" "\<forall>x\<in>set pre. \<exists>kv. x = JObj kv \<and> \<not> stream_is_audio kv"
      "stream_is_audio s"
    using scan_streams_first [OF h(2,3), of E post] it assms(4-6) h(1)
    by (simp add: pf probe_data_format stream_int_def dict_get_def)
  have b: "probe_file E p w =
              (Inr \<lparr>path = p, duration_s = d, sample_rate = None, channels = None, codec = JNull,
                    bit_rate = (case map_of f ''bit_rate'' of None \<Rightarrow> None | Some x \<Rightarrow> py_int E x)\<rparr>,
               w @ [Run (probe_cmd p)])"
    if h: "\<forall>x\<in>set ss. \<exists>kv. x = JObj kv \<and> \<not> stream_is_audio kv"
    using scan_streams_none [OF h, of E] it assms(4-6)
    by (simp add: pf probe_data_format)
  from a b show ?thesis by blast
qed

theorem probe_first_audio_stream_witness:
  "probe_file (example_env (\<lambda>cmd. exits 0 []) example_doc) (Path ''a.wav'') [] =
     (Inr \<lparr>path = PosixPath [] [''a.wav''], duration_s = 25 / 2, sample_rate = Some 44100,
           channels = Some 2, codec = JStr ''pcm_s16le'', bit_rate = None\<rparr>,
      [Run (probe_cmd (Path ''a.wav''))]) \<and>
   probe_file (example_env (\<lambda>cmd. exits 0 [])
       (JObj [(''format'', JObj [(''duration'', JStr ''12.5''), (''bit_rate'', JStr ''fast'')]),
              (''streams'', JArr [JObj [(''codec_type'', JStr ''audio''), (''sample_rate'', JStr ''high'')],
                                  JStr ''junk''])]))
     (Path ''a.wav'') [] =
     (Inr \<lparr>path = PosixPath [] [''a.wav''], duration_s = 25 / 2, sample_rate = None,
           channels = None, codec = JNull, bit_rate = None\<rparr>,
      [Run (probe_cmd (Path ''a.wav''))]) \<and>
   probe_file (example_env (\<lambda>cmd. exits 0 [])
       (JObj [(''format'', JObj [(''duration'', JStr ''12.5'')]),
              (''streams'', JArr [JObj [(''codec_type'', JStr ''video''), (''codec_name'', JStr ''h264'')]])]))
     (Path ''a.wav'') [] =
     (Inr \<lparr>path = PosixPath [] [''a.wav''], duration_s = 25 / 2, sample_rate = None,
           channels = None, codec = JNull, bit_rate = None\<rparr>,
      [Run (probe_cmd (Path ''a.wav''))])"
proof -
  let ?E = "\<lambda>doc. example_env (\<lambda>cmd. exits 0 []) doc"
  let ?f = "[(''duration'', JStr ''12.5'')] :: (string \<times> rat json) list"
  let ?video = "[(''codec_type'', JStr ''video''), (''codec_name'', JStr ''h264'')] :: (string \<times> rat json) list"
  let ?audio = "[(''codec_type'', JStr ''audio''), (''sample_rate'', JStr ''44100''),
                 (''channels'', JStr ''2''), (''codec_name'', JStr ''pcm_s16le'')] :: (string \<times> rat json) list"
  let ?other = "[(''codec_type'', JStr ''audio''), (''sample_rate'', JStr ''2''),
                 (''codec_name'', JStr ''mp3'')] :: (string \<times> rat json) list"
  let ?f2 = "[(''duration'', JStr ''12.5''), (''bit_rate'', JStr ''fast'')] :: (string \<times> rat json) list"
  let ?bad = "[(''codec_type'', JStr ''audio''), (''sample_rate'', JStr ''high'')] :: (string \<times> rat json) list"
  have t: "subprocess_run (?E (JObj items)) [] (probe_cmd (Path ''a.wav'')) = Inr (exits 0 [])"
    "returncode (exits 0 []) = 0"
    "json_loads (?E (JObj items)) (stdout (exits 0 [])) = Inr (JObj items)" for items
    by (simp_all add: example_env_def exits_def)
  have fl: "py_float (?E doc) (JStr ''12.5'') = Some (25 / 2)" for doc
    by (simp add: example_env_def)
  have 1: "probe_file (?E example_doc) (Path ''a.wav'') [] =
     (Inr \<lparr>path = PosixPath [] [''a.wav''], duration_s = 25 / 2, sample_rate = Some 44100,
           channels = Some 2, codec = JStr ''pcm_s16le'', bit_rate = None\<rparr>,
      [Run (probe_cmd (Path ''a.wav''))])"
    using probe_first_audio_stream [OF t _ _ fl, of "[(''format'', JObj ?f),
        (''streams'', JArr [JObj ?video, JObj ?audio, JObj ?other])]" ?f
        "[JObj ?video, JObj ?audio, JObj ?other]" "[JObj ?video]" ?audio "[JObj ?other]"]
    by (simp add: example_doc_def stream_is_audio_def dict_get_def example_env_def Path_def)
  have 2: "probe_file (?E (JObj [(''format'', JObj ?f2), (''streams'', JArr [JObj ?bad, JStr ''junk''])]))
      (Path ''a.wav'') [] =
     (Inr \<lparr>path = PosixPath [] [''a.wav''], duration_s = 25 / 2, sample_rate = None,
           channels = None, codec = JNull, bit_rate = None\<rparr>,
      [Run (probe_cmd (Path ''a.wav''))])"
    using probe_first_audio_stream [OF t _ _ fl, of "[(''format'', JObj ?f2),
        (''streams'', JArr [JObj ?bad, JStr ''junk''])]" ?f2
        "[JObj ?bad, JStr ''junk'']" "[]" ?bad "[JStr ''junk'']"]
    by (simp add: stream_is_audio_def dict_get_def example_env_def Path_def)
  have 3: "probe_file (?E (JObj [(''format'', JObj ?f), (''streams'', JArr [JObj ?video])]))
      (Path ''a.wav'') [] =
     (Inr \<lparr>path = PosixPath [] [''a.wav''], duration_s = 25 / 2, sample_rate = None,
           channels = None, codec = JNull, bit_rate = None\<rparr>,
      [Run (probe_cmd (Path ''a.wav''))])"
    using probe_first_audio_stream [OF t _ _ fl, of "[(''format'', JObj ?f),
        (''streams'', JArr [JObj ?video])]" ?f "[JObj ?video]", THEN conjunct2]
    by (simp add: stream_is_audio_def dict_get_def example_env_def Path_def)
  from 1 2 3 show ?thesis by simp
qed

section \<open>\<open>Worker\<close> and \<open>JobController\<close>\<close>

























text \<open>
  Claim C1 against the code. Job 0 probes \<open>a.wav\<close> and is running when \<open>start\<close> is called
  for a second job: the \<open>stop\<close> inside \<open>start\<close> gives up the only reference to the running
  thread, the process is aborted, the second job is never started and the listeners are given
  nothing any more, of either job. When the first job has been run to its end and its thread
  object deleted, the second \<open>start\<close> raises \<open>RuntimeError\<close> instead and starts nothing either.
\<close>

theorem supersede_aborts:
  "thread (snd (start (ProbeTab_fn (example_env (\<lambda>cmd. exits 0 []) example_doc) [Path ''a.wav'']) []
       JobController_init)) = Some 0 \<and>
   status (snd (start (ProbeTab_fn (example_env (\<lambda>cmd. exits 0 []) example_doc) [Path ''a.wav'']) []
       JobController_init)) 0 = Running \<and>
   crashed (snd (start (ProbeTab_fn (example_env (\<lambda>cmd. exits 0 []) example_doc) [Path ''b.wav'']) []
     (snd (start (ProbeTab_fn (example_env (\<lambda>cmd. exits 0 []) example_doc) [Path ''a.wav'']) []
       JobController_init)))) \<and>
   length (launched (snd (start (ProbeTab_fn (example_env (\<lambda>cmd. exits 0 []) example_doc) [Path ''b.wav'']) []
     (snd (start (ProbeTab_fn (example_env (\<lambda>cmd. exits 0 []) example_doc) [Path ''a.wav'']) []
       JobController_init))))) = 1 \<and>
   received (fold step
     [Start (ProbeTab_fn (example_env (\<lambda>cmd. exits 0 []) example_doc) [Path ''a.wav'']) [],
      Start (ProbeTab_fn (example_env (\<lambda>cmd. exits 0 []) example_doc) [Path ''b.wav'']) [],
      Work 0, Dispatch, Work 0, Dispatch, Work 1, Dispatch] JobController_init) = [] \<and>
   fst (start (ProbeTab_fn (example_env (\<lambda>cmd. exits 0 []) example_doc) [Path ''b.wav'']) []
     (fold step
       [Start (ProbeTab_fn (example_env (\<lambda>cmd. exits 0 []) example_doc) [Path ''a.wav'']) [],
        Work 0, Work 0, Dispatch, Dispatch, ThreadEnds 0, DeleteLater 0] JobController_init)) =
     Some (RuntimeError ''Internal C++ object already deleted'') \<and>
   length (launched (snd (start (ProbeTab_fn (example_env (\<lambda>cmd. exits 0 []) example_doc) [Path ''b.wav'']) []
     (fold step
       [Start (ProbeTab_fn (example_env (\<lambda>cmd. exits 0 []) example_doc) [Path ''a.wav'']) [],
        Work 0, Work 0, Dispatch, Dispatch, ThreadEnds 0, DeleteLater 0] JobController_init)))) = 1"
proof -
  let ?E = "example_env (\<lambda>cmd. exits 0 []) example_doc"
  have fn: "ProbeTab_fn ?E [Path nm] [] =
     (Inr [\<lparr>path = Path nm, duration_s = 25 / 2, sample_rate = Some 44100,
            channels = Some 2, codec = JStr ''pcm_s16le'', bit_rate = None\<rparr>],
      [Run (probe_cmd (Path nm)),
       Emit (progress 1 1 ''Probed'' (Path nm))])" for nm
    by (simp add: ProbeTab_fn_def probe_file_def probe_run_def probe_data_def fmt_number_def
        stream_is_audio_def stream_int_def dict_get_def example_doc_def example_env_def exits_def)
  show ?thesis
    by (simp add: start_def stop_def work_def dispatch_def thread_ends_def delete_later_def
        JobController_init_def Worker_run_def fn)
qed

end
